theory Spec2Isabelle
  imports Main "HOL-Library.Sublist"
begin

section \<open>JavaScript values and strings\<close>

text \<open>
  The tool is one JavaScript module, \<^verbatim>\<open>debug-supabase-storage.mjs\<close>. Strings are
  lists of code units; the model covers code units below 256, one \<^typ>\<open>char\<close> each.
  A property that may be missing is a \<open>jsstr\<close>: \<open>Undefined\<close> (absent), \<open>Null\<close>
  or a string.
\<close>

datatype jsstr = Undefined | Null | Str string

text \<open>Truthiness, as \<^verbatim>\<open>if (x)\<close>, \<^verbatim>\<open>!x\<close> and \<^verbatim>\<open>x || y\<close> test it: only a
  non-empty string is truthy.\<close>

fun truthy :: "jsstr \<Rightarrow> bool" where
  "truthy (Str s) = (s \<noteq> [])"
| "truthy _ = False"

text \<open>\<^verbatim>\<open>x || d\<close> for a string default \<open>d\<close>.\<close>

fun orElse :: "jsstr \<Rightarrow> string \<Rightarrow> string" where
  "orElse (Str s) d = (if s = [] then d else s)"
| "orElse _ d = d"

text \<open>A value inside a template literal, \<^verbatim>\<open>`${x}`\<close>.\<close>

fun render :: "jsstr \<Rightarrow> string" where
  "render Undefined = ''undefined''"
| "render Null = ''null''"
| "render (Str s) = s"

text \<open>\<^verbatim>\<open>String.prototype.toLowerCase\<close> and \<^verbatim>\<open>toUpperCase\<close> on code units below 256:
  the letters A-Z and the Latin-1 capitals 192-222 (without the multiplication sign 215)
  move by 32. The two code units whose capitals lie beyond 255 (181 and 255) and the
  sharp s (223), which \<^verbatim>\<open>toUpperCase\<close> expands, are left alone by \<open>toUpperChar\<close>;
  the tool upper-cases only the words \<^verbatim>\<open>text\<close> and \<^verbatim>\<open>image\<close>.\<close>

definition toLowerChar :: "char \<Rightarrow> char" where
  "toLowerChar c =
     (let n = (of_char c :: nat)
      in if (65 \<le> n \<and> n \<le> 90) \<or> (192 \<le> n \<and> n \<le> 222 \<and> n \<noteq> 215)
         then char_of (n + 32) else c)"

definition toUpperChar :: "char \<Rightarrow> char" where
  "toUpperChar c =
     (let n = (of_char c :: nat)
      in if (97 \<le> n \<and> n \<le> 122) \<or> (224 \<le> n \<and> n \<le> 254 \<and> n \<noteq> 247)
         then char_of (n - 32) else c)"

definition toLowerCase :: "string \<Rightarrow> string" where
  "toLowerCase s = map toLowerChar s"

definition toUpperCase :: "string \<Rightarrow> string" where
  "toUpperCase s = map toUpperChar s"

text \<open>\<^verbatim>\<open>s.includes(k)\<close>: \<open>k\<close> occurs in \<open>s\<close> as a contiguous run.\<close>

definition includesStr :: "string \<Rightarrow> string \<Rightarrow> bool" where
  "includesStr s k = sublist k s"

text \<open>\<^verbatim>\<open>s.startsWith(k)\<close>.\<close>

definition startsWith :: "string \<Rightarrow> string \<Rightarrow> bool" where
  "startsWith s k = prefix k s"

text \<open>The double quote, which the fallback hint puts around the raw message.\<close>

definition dquote :: char where
  "dquote = CHR 0x22"

text \<open>Decimal rendering of the numbers that appear in template literals.\<close>

fun showNat :: "nat \<Rightarrow> string" where
  "showNat n =
     (if n < 10 then [char_of (48 + n)]
      else showNat (n div 10) @ [char_of (48 + n mod 10)])"

declare showNat.simps [simp del]

definition showInt :: "int \<Rightarrow> string" where
  "showInt i = (if i < 0 then CHR ''-'' # showNat (nat (- i)) else showNat (nat i))"

section \<open>The error hint classifier\<close>

text \<open>An error object, as the client library returns it or as a \<^verbatim>\<open>catch\<close> receives
  it: the tool reads its \<^verbatim>\<open>message\<close> only.\<close>

record js_error =
  message :: jsstr

definition authHint :: string where
  "authHint = ''Auth issue. Verify API key, RLS policies, or use Service Role Key. Key might be expired or invalid.''"

definition notFoundHint :: string where
  "notFoundHint = ''Resource (bucket, file) not found. Check names and paths.''"

definition timeoutHint :: string where
  "timeoutHint = ''Network timeout. Check connectivity, Supabase status, or firewall.''"

definition limitHint :: string where
  "limitHint = ''Rate limit or resource limit exceeded. Check Supabase plan.''"

definition existsHint :: string where
  "existsHint = ''File already exists. Use 'upsert: true' or choose a different path if not intended.''"

text \<open>\<^verbatim>\<open>const msg = error.message?.toLowerCase() || ""\<close>\<close>

fun lowerMessage :: "jsstr \<Rightarrow> string" where
  "lowerMessage (Str s) = toLowerCase s"
| "lowerMessage _ = []"

definition getErrorHint :: "js_error \<Rightarrow> string" where
  "getErrorHint error =
     (let msg = lowerMessage (message error)
      in if includesStr msg ''unauthorized'' \<or> includesStr msg ''access denied''
            \<or> includesStr msg ''jwt'' \<or> includesStr msg ''token''
         then authHint
         else if includesStr msg ''not found'' \<or> includesStr msg ''does not exist''
         then notFoundHint
         else if includesStr msg ''timeout'' then timeoutHint
         else if includesStr msg ''limit'' then limitHint
         else if includesStr msg ''already exists'' then existsHint
         else ''Consult Supabase docs for: '' @ [dquote]
              @ orElse (message error) ''Unknown Supabase error'' @ [dquote])"

text \<open>A spelling of a lower-case keyword in any casing: letter by letter, the keyword's
  letter or its capital.\<close>

definition capitalOf :: "char \<Rightarrow> char" where
  "capitalOf k = char_of ((of_char k :: nat) - 32)"

definition anyCasing :: "string \<Rightarrow> string \<Rightarrow> bool" where
  "anyCasing s kw = list_all2 (\<lambda>c k. c = k \<or> c = capitalOf k) s kw"

section \<open>Console output, outside calls and the session state\<close>

text \<open>
  What the tool does to the outside is recorded, in order, as a list of events: console
  output, prompts, and the calls it makes into the client library, the HTTP modules and
  the file system. \<^verbatim>\<open>log(color, prefix, message)\<close> is \<open>Out\<close> with a tag for the
  colour and prefix pair (\<open>TBanner\<close> is the blue \<^verbatim>\<open>===\<close>); the colour codes and the
  pictographs of the prefixes are not part of the text. \<open>Line\<close> is a bare
  \<^verbatim>\<open>console.log\<close>; \<open>Item\<close> is the one line printed for a listing entry, with its
  folder or page pictograph as the kind.
\<close>

datatype tag = TSuccess | TError | TWarn | TInfo | TTip | TBanner

datatype http_module = Http | Https

text \<open>A value passed to \<^verbatim>\<open>upload\<close>: the stream made by
  \<^verbatim>\<open>fs.createReadStream(p)\<close>, a byte buffer, a plain string, or \<^verbatim>\<open>undefined\<close>.\<close>

datatype js_arg = ReadStream string | Buffer string | Text string | Missing

record upload_options =
  contentType :: string
  cacheControl :: string
  upsert :: bool

datatype kind = Directory | File

datatype event =
    Clear
  | Out tag string
  | Line string
  | Item kind string string
  | Asked string
  | CreateClient string string
  | HttpGet http_module string nat
  | Upload string js_arg js_arg upload_options
  | GetPublicUrl string string
  | Download string string
  | ListFiles string string nat nat
  | ListBuckets
  | GetUser
  | Mkdir string
  | WriteFile string string
  | Unlink string

text \<open>The answers of the outside. A call that returns \<^verbatim>\<open>{ data, error }\<close> gives a
  \<open>reply\<close>; a call that may throw gives \<open>Inl\<close> of the thrown error.\<close>

datatype 'a reply = Data 'a | Fail js_error

record upload_data =
  path :: string

record blob =
  size_blob :: nat
  type_blob :: string
  bytes_blob :: string

record metadata =
  size_meta :: "nat option"
  mimetype :: jsstr

record entry =
  name :: string
  id_entry :: jsstr
  metadata :: "metadata option"

record user =
  id_user :: jsstr
  role :: jsstr

record client =
  clientUrl :: string
  clientKey :: string

text \<open>What a request made with \<^verbatim>\<open>protocol.get(url, { timeout: 5000 }, cb)\<close> does:
  the call throws before a request exists, or the request emits events, of which there is
  a first: a response with its status code, \<^verbatim>\<open>error\<close>, or \<^verbatim>\<open>timeout\<close> (raised by
  the runtime for the 5000 ms given in the options).\<close>

datatype net_event = Response int | NetError | TimedOut

datatype get_result = GetThrew js_error | Emitted net_event "net_event list"

record env =
  processEnv :: "string \<rightharpoonup> string"
  tempDir :: string
  urlParses :: "string \<Rightarrow> bool"
  createClient :: "string \<Rightarrow> string \<Rightarrow> js_error + client"
  httpGet :: "http_module \<Rightarrow> string \<Rightarrow> nat \<Rightarrow> get_result"
  upload :: "string \<Rightarrow> js_arg \<Rightarrow> js_arg \<Rightarrow> upload_options \<Rightarrow> js_error + upload_data reply"
  getPublicUrl :: "string \<Rightarrow> string \<Rightarrow> jsstr"
  download :: "string \<Rightarrow> string \<Rightarrow> js_error + blob reply"
  listFiles :: "string \<Rightarrow> string \<Rightarrow> nat \<Rightarrow> nat \<Rightarrow> js_error + entry list reply"
  listBuckets :: "js_error + string list reply"
  getUser :: "js_error + user option reply"
  unlinkRefused :: "string \<Rightarrow> js_error option"
  fmtBytes :: "nat \<Rightarrow> string"
  startTime :: int
  endTime :: int
  isoNow :: string

text \<open>
  \<open>processEnv\<close> is \<^verbatim>\<open>process.env\<close>; \<open>tempDir\<close> is \<^verbatim>\<open>TEMP_DIR_PATH\<close>, the
  directory \<^verbatim>\<open>supabase-debug-temp\<close> beside the script; \<open>urlParses s\<close> says that
  \<^verbatim>\<open>new URL(s)\<close> does not throw; \<open>getPublicUrl\<close> gives \<^verbatim>\<open>data.publicUrl\<close>;
  \<open>unlinkRefused\<close> is an error of the operating system on removing a file that exists;
  \<open>fmtBytes\<close> is the floating-point branch of \<^verbatim>\<open>formatBytes\<close>; \<open>startTime\<close> and
  \<open>endTime\<close> are the two readings of \<^verbatim>\<open>Date.now()\<close> around a call; \<open>isoNow\<close> is
  \<^verbatim>\<open>new Date().toISOString()\<close>.

  The session state: the module variable \<^verbatim>\<open>supabase\<close>, the local file system as far
  as the tool touches it (the directories and the files with their contents), and the
  events so far.
\<close>

record world =
  supabase :: "client option"
  dirs :: "string set"
  files :: "string \<rightharpoonup> string"
  trace :: "event list"

definition emit :: "event \<Rightarrow> world \<Rightarrow> world" where
  "emit e w = w\<lparr>trace := trace w @ [e]\<rparr>"

definition emits :: "event list \<Rightarrow> world \<Rightarrow> world" where
  "emits es w = w\<lparr>trace := trace w @ es\<rparr>"

definition ENV_SUPABASE_URL :: string where
  "ENV_SUPABASE_URL = ''NEXT_PUBLIC_SUPABASE_URL''"

definition ENV_SERVICE_KEY :: string where
  "ENV_SERVICE_KEY = ''SUPABASE_SERVICE_ROLE_KEY''"

definition ENV_ANON_KEY :: string where
  "ENV_ANON_KEY = ''NEXT_PUBLIC_SUPABASE_ANON_KEY''"

definition TEST_TEXT_FILENAME :: string where
  "TEST_TEXT_FILENAME = ''debug-text.txt''"

definition TEST_IMAGE_FILENAME :: string where
  "TEST_IMAGE_FILENAME = ''debug-image.png''"

definition DEFAULT_UPLOAD_PATH_PREFIX :: string where
  "DEFAULT_UPLOAD_PATH_PREFIX = ''supabase-debug-tool''"

definition newline :: char where
  "newline = CHR 0x0A"

text \<open>\<^verbatim>\<open>process.env[k]\<close>\<close>

definition getenv :: "env \<Rightarrow> string \<Rightarrow> jsstr" where
  "getenv env k = (case processEnv env k of None \<Rightarrow> Undefined | Some v \<Rightarrow> Str v)"

text \<open>\<^verbatim>\<open>formatBytes\<close>: zero is answered before any arithmetic.\<close>

definition formatBytes :: "env \<Rightarrow> nat \<Rightarrow> string" where
  "formatBytes env b = (if b = 0 then ''0 Bytes'' else fmtBytes env b)"

section \<open>The local file system\<close>

text \<open>Paths here are a directory, a slash and a name. \<open>basename\<close> is
  \<^verbatim>\<open>path.basename\<close>: trailing slashes are dropped and the last portion is kept.
  \<open>dirnameOf\<close> is the directory a path lies in.\<close>

definition basename :: "string \<Rightarrow> string" where
  "basename p =
     rev (takeWhile (\<lambda>c. c \<noteq> CHR ''/'') (dropWhile (\<lambda>c. c = CHR ''/'') (rev p)))"

definition dirnameOf :: "string \<Rightarrow> string" where
  "dirnameOf p = rev (drop 1 (dropWhile (\<lambda>c. c \<noteq> CHR ''/'') (rev p)))"

definition pathJoin :: "string \<Rightarrow> string \<Rightarrow> string" where
  "pathJoin d n = d @ ''/'' @ n"

definition existsSync :: "world \<Rightarrow> string \<Rightarrow> bool" where
  "existsSync w p = (p \<in> dirs w \<or> files w p \<noteq> None)"

text \<open>\<^verbatim>\<open>fs.mkdirSync(p, { recursive: true })\<close>\<close>

definition mkdirSync :: "string \<Rightarrow> world \<Rightarrow> world" where
  "mkdirSync p w = (emit (Mkdir p) w)\<lparr>dirs := insert p (dirs w)\<rparr>"

text \<open>\<^verbatim>\<open>fs.writeFileSync(p, content)\<close> throws when the directory of \<open>p\<close> does not
  exist (\<^verbatim>\<open>ENOENT\<close>), when a regular file stands in its place (\<^verbatim>\<open>ENOTDIR\<close>), and
  when \<open>p\<close> is itself a directory (\<^verbatim>\<open>EISDIR\<close>).\<close>

definition writeFileSync ::
  "string \<Rightarrow> string \<Rightarrow> world \<Rightarrow> (js_error + unit) \<times> world"
where
  "writeFileSync p content w =
     (let w1 = emit (WriteFile p content) w
      in if dirnameOf p \<notin> dirs w
         then (if files w (dirnameOf p) \<noteq> None
               then (Inl \<lparr>message = Str (''ENOTDIR: not a directory, open ''
                                         @ [CHR 0x27] @ p @ [CHR 0x27])\<rparr>, w1)
               else (Inl \<lparr>message = Str (''ENOENT: no such file or directory, open ''
                                         @ [CHR 0x27] @ p @ [CHR 0x27])\<rparr>, w1))
         else if p \<in> dirs w
         then (Inl \<lparr>message = Str (''EISDIR: illegal operation on a directory, open ''
                                   @ [CHR 0x27] @ p @ [CHR 0x27])\<rparr>, w1)
         else (Inr (), w1\<lparr>files := (files w)(p \<mapsto> content)\<rparr>))"

text \<open>\<^verbatim>\<open>fs.unlinkSync(p)\<close>\<close>

definition unlinkSync ::
  "env \<Rightarrow> string \<Rightarrow> world \<Rightarrow> (js_error + unit) \<times> world"
where
  "unlinkSync env p w =
     (let w1 = emit (Unlink p) w
      in if files w p = None
         then (Inl \<lparr>message = Str (''ENOENT: no such file or directory, unlink ''
                                   @ [CHR 0x27] @ p @ [CHR 0x27])\<rparr>, w1)
         else case unlinkRefused env p of
                Some e \<Rightarrow> (Inl e, w1)
              | None \<Rightarrow> (Inr (), w1\<lparr>files := (files w)(p := None)\<rparr>))"

section \<open>The reachability probe\<close>

record probe =
  accessible :: bool
  statusCode :: int
  error :: jsstr

text \<open>The value each of the three callbacks passes to \<^verbatim>\<open>resolve\<close>.\<close>

fun onEvent :: "net_event \<Rightarrow> probe" where
  "onEvent (Response s) = \<lparr>accessible = (200 \<le> s \<and> s < 400), statusCode = s, error = Undefined\<rparr>"
| "onEvent NetError = \<lparr>accessible = False, statusCode = 0, error = Str ''Network error''\<rparr>"
| "onEvent TimedOut = \<lparr>accessible = False, statusCode = 0, error = Str ''Timeout''\<rparr>"

text \<open>
  \<^verbatim>\<open>checkUrl\<close> builds a promise whose executor calls \<^verbatim>\<open>protocol.get\<close>. An
  exception of that call leaves the executor and rejects the promise (\<open>Inl\<close>). Otherwise
  the first event of the request calls \<^verbatim>\<open>resolve\<close>; a promise settles once, so the
  later events change nothing.
\<close>

definition checkUrl :: "env \<Rightarrow> string \<Rightarrow> world \<Rightarrow> (js_error + probe) \<times> world" where
  "checkUrl env url w =
     (let protocol = (if startsWith url ''https:'' then Https else Http);
          w1 = emit (HttpGet protocol url 5000) w
      in case httpGet env protocol url 5000 of
           GetThrew e \<Rightarrow> (Inl e, w1)
         | Emitted ev evs \<Rightarrow> (Inr (onEvent ev), w1))"

section \<open>Start-up validation\<close>

definition validateEnvAndInitClient :: "env \<Rightarrow> world \<Rightarrow> bool \<times> world" where
  "validateEnvAndInitClient env w0 =
     (let w = emit (Out TInfo ''Validating environment & initializing Supabase client...'') w0;
          supabaseUrl = getenv env ENV_SUPABASE_URL;
          serviceKey = getenv env ENV_SERVICE_KEY;
          anonKey = getenv env ENV_ANON_KEY;
          supabaseKey = (if truthy serviceKey then serviceKey else anonKey);
          (valid1, w1) =
            (if \<not> truthy supabaseUrl
             then (False, emit (Out TError (ENV_SUPABASE_URL @ '' is not set.'')) w)
             else if urlParses env (render supabaseUrl)
             then (True, emit (Out TSuccess (ENV_SUPABASE_URL @ '': '' @ render supabaseUrl)) w)
             else (False, emit (Out TError (''Invalid '' @ ENV_SUPABASE_URL @ '': ''
                                            @ render supabaseUrl)) w));
          (valid, w2) =
            (if \<not> truthy supabaseKey
             then (False, emit (Out TError (''No Supabase key found. Set '' @ ENV_SERVICE_KEY
                                  @ '' (recommended) or '' @ ENV_ANON_KEY @ ''.'')) w1)
             else let w' = emit (Out TSuccess (''Supabase Key: ''
                                   @ (if truthy serviceKey then ''Service Role (SET)''
                                      else ''Anon (SET)''))) w1
                  in (valid1,
                      if \<not> truthy serviceKey
                      then emit (Out TWarn (''Using Anon Key. For full debug capabilities, ''
                                   @ ENV_SERVICE_KEY @ '' is STRONGLY recommended.'')) w'
                      else w'))
      in if \<not> valid
         then (False, emit (Out TError
                 ''Critical environment variables missing or invalid. Exiting.'') w2)
         else
           let w3 = emit (CreateClient (render supabaseUrl) (render supabaseKey)) w2;
               failed = (\<lambda>e v. (False, emit (Out TError
                          (''Supabase client initialization failed: '' @ render (message e))) v))
           in case createClient env (render supabaseUrl) (render supabaseKey) of
                Inl e \<Rightarrow> failed e w3
              | Inr c \<Rightarrow>
                  let w4 = emits [Out TSuccess ''Supabase client initialized.'',
                                  Out TInfo ''Pinging Supabase URL...'']
                                 (w3\<lparr>supabase := Some c\<rparr>)
                  in (case checkUrl env (render supabaseUrl) w4 of
                        (Inl e, w5) \<Rightarrow> failed e w5
                      | (Inr urlCheck, w5) \<Rightarrow>
                          (True,
                           if accessible urlCheck
                           then emit (Out TSuccess (''Supabase URL accessible (Status: ''
                                        @ showInt (statusCode urlCheck) @ '').'')) w5
                           else emit (Out TWarn (''Supabase URL ping failed (Status: ''
                                        @ showInt (statusCode urlCheck) @ '', Error: ''
                                        @ orElse (error urlCheck) ''N/A''
                                        @ ''). May be okay for some setups.'')) w5)))"

section \<open>The core upload processor\<close>

text \<open>Reading \<^verbatim>\<open>supabase.storage\<close> while \<^verbatim>\<open>supabase\<close> is still undefined throws.\<close>

definition noClient :: js_error where
  "noClient = \<lparr>message = Str (''Cannot read properties of undefined (reading ''
                               @ [CHR 0x27] @ ''storage'' @ [CHR 0x27] @ '')'')\<rparr>"

text \<open>\<^verbatim>\<open>fileSource\<close> is \<^verbatim>\<open>{ path }\<close> or \<^verbatim>\<open>{ buffer }\<close>.\<close>

record file_source =
  srcPath :: jsstr
  srcBuffer :: "string option"

text \<open>\<^verbatim>\<open>fileSource.path ? fs.createReadStream(fileSource.path) : fileSource.buffer\<close>\<close>

definition sourceArg :: "file_source \<Rightarrow> js_arg" where
  "sourceArg fileSource =
     (if truthy (srcPath fileSource) then ReadStream (render (srcPath fileSource))
      else case srcBuffer fileSource of None \<Rightarrow> Missing | Some b \<Rightarrow> Buffer b)"

text \<open>
  The call is \<^verbatim>\<open>.upload(<stream or buffer>, targetPath, { contentType, cacheControl:
  "3600", upsert: true })\<close>: the \<open>Upload\<close> event and the \<open>upload\<close> answer take the
  arguments in the order the source passes them. The result is \<^verbatim>\<open>data.path\<close> or
  \<^verbatim>\<open>null\<close> (\<open>None\<close>); every exception inside is caught.
\<close>

definition coreUploadProcessor ::
  "env \<Rightarrow> string \<Rightarrow> string \<Rightarrow> file_source \<Rightarrow> string \<Rightarrow> nat \<Rightarrow> world \<Rightarrow> string option \<times> world"
where
  "coreUploadProcessor env bucketName targetPath fileSource ctype fileSize w0 =
     (let w = emit (Out TInfo (''Attempting upload: '' @ bucketName @ ''/'' @ targetPath
                      @ '' ('' @ formatBytes env fileSize @ '') Type: '' @ ctype)) w0;
          caught = (\<lambda>e v. (None, emits [Out TError (''Critical upload exception: ''
                                                    @ render (message e)),
                                         Out TTip (getErrorHint e)] v))
      in case supabase w of
           None \<Rightarrow> caught noClient w
         | Some c \<Rightarrow>
             (let opts = \<lparr>contentType = ctype, cacheControl = ''3600'', upsert = True\<rparr>;
                  w1 = emit (Upload bucketName (sourceArg fileSource) (Text targetPath) opts) w
              in case upload env bucketName (sourceArg fileSource) (Text targetPath) opts of
                   Inl e \<Rightarrow> caught e w1
                 | Inr (Fail e) \<Rightarrow>
                     (None, emits [Out TError (''Upload FAILED: '' @ render (message e)),
                                   Out TTip (getErrorHint e)] w1)
                 | Inr (Data d) \<Rightarrow>
                     (let duration = endTime env - startTime env;
                          w2 = emits [Out TSuccess (''Upload SUCCEEDED in '' @ showInt duration
                                        @ ''ms. Path: '' @ path d),
                                      GetPublicUrl bucketName targetPath] w1;
                          publicUrl = getPublicUrl env bucketName targetPath
                      in if truthy publicUrl
                         then (let w3 = emits [Out TInfo (''Public URL: '' @ render publicUrl),
                                               Out TInfo ''Checking public URL accessibility...'']
                                              w2
                               in case checkUrl env (render publicUrl) w3 of
                                    (Inl e, w4) \<Rightarrow> caught e w4
                                  | (Inr publicUrlCheck, w4) \<Rightarrow>
                                      (Some (path d),
                                       if accessible publicUrlCheck
                                       then emit (Out TSuccess
                                              (''Public URL accessible (Status: ''
                                               @ showInt (statusCode publicUrlCheck) @ '').'')) w4
                                       else emit (Out TWarn
                                              (''Public URL check returned Status ''
                                               @ showInt (statusCode publicUrlCheck)
                                               @ ''. May indicate RLS, CORS, or private bucket issue.''))
                                              w4))
                         else (Some (path d),
                               emit (Out TWarn ''Could not retrieve public URL. Bucket might be private or an issue occurred.'')
                                    w2))))"

section \<open>Generated payloads\<close>

record test_file =
  filePath :: string
  fileContentType :: string
  fileSize :: nat

text \<open>\<^verbatim>\<open>Buffer.byteLength(content)\<close>: the length in UTF-8, where a code unit from 128 on
  takes two bytes.\<close>

definition byteLength :: "string \<Rightarrow> nat" where
  "byteLength s = (\<Sum>c\<leftarrow>s. if (of_char c :: nat) < 128 then 1 else 2)"

text \<open>The 68 bytes that the base64 text of the one-pixel PNG decodes to.\<close>

definition pngBytes :: string where
  "pngBytes = map char_of
     [137, 80, 78, 71, 13, 10, 26, 10, 0, 0, 0, 13, 73, 72, 68, 82, 0, 0, 0, 1, 0, 0, 0, 1,
      8, 4, 0, 0, 0, 181, 28, 12, 2, 0, 0, 0, 11, 73, 68, 65, 84, 120, 218, 99, 100, 96, 0,
      0, 0, 6, 0, 2, 48, 129, 208, 47, 0, 0, 0, 0, 73, 69, 78, 68, 174, 66, 96, 130 :: nat]"

definition prepareTestFile ::
  "env \<Rightarrow> string \<Rightarrow> world \<Rightarrow> (js_error + test_file option) \<times> world"
where
  "prepareTestFile env type w0 =
     (let w = (if \<not> existsSync w0 (tempDir env) then mkdirSync (tempDir env) w0 else w0)
      in if type = ''text''
         then (let p = pathJoin (tempDir env) TEST_TEXT_FILENAME;
                   content = ''Supabase Storage Debug Tool: Test file generated at ''
                             @ isoNow env
               in case writeFileSync p content w of
                    (Inl e, w1) \<Rightarrow> (Inl e, w1)
                  | (Inr u, w1) \<Rightarrow>
                      (Inr (Some \<lparr>filePath = p, fileContentType = ''text/plain'',
                                  fileSize = byteLength content\<rparr>), w1))
         else if type = ''image''
         then (let p = pathJoin (tempDir env) TEST_IMAGE_FILENAME
               in case writeFileSync p pngBytes w of
                    (Inl e, w1) \<Rightarrow> (Inl e, w1)
                  | (Inr u, w1) \<Rightarrow>
                      (Inr (Some \<lparr>filePath = p, fileContentType = ''image/png'',
                                  fileSize = length pngBytes\<rparr>), w1))
         else (Inr None, w))"

text \<open>The handler of menu entries 3 and 4. \<open>bucketName\<close> and \<open>storagePathInput\<close> are
  what the user types at the two prompts.\<close>

definition handleGeneratedFileUpload ::
  "env \<Rightarrow> string \<Rightarrow> string \<Rightarrow> string \<Rightarrow> world \<Rightarrow> (js_error + unit) \<times> world"
where
  "handleGeneratedFileUpload env fileType bucketName storagePathInput w0 =
     (let w = emits [Clear,
                     Out TBanner (''GENERATED '' @ toUpperCase fileType @ '' FILE UPLOAD ===''
                                  @ [newline]),
                     Asked ''Enter bucket name:''] w0
      in if bucketName = []
         then (Inr (), emit (Out TError ''Bucket name required.'') w)
         else case prepareTestFile env fileType w of
                (Inl e, w1) \<Rightarrow> (Inl e, w1)
              | (Inr None, w1) \<Rightarrow>
                  (Inr (), emit (Out TError (''Failed to prepare test '' @ fileType @ '' file.'')) w1)
              | (Inr (Some testFile), w1) \<Rightarrow>
                  (let defaultFileName = basename (filePath testFile);
                       dflt = DEFAULT_UPLOAD_PATH_PREFIX @ ''/'' @ fileType @ ''/''
                              @ defaultFileName;
                       w2 = emit (Asked (''Enter storage path (default: '' @ dflt @ ''):'')) w1;
                       storagePath = (if storagePathInput = [] then dflt else storagePathInput);
                       (r, w3) = coreUploadProcessor env bucketName storagePath
                                   \<lparr>srcPath = Str (filePath testFile), srcBuffer = None\<rparr>
                                   (fileContentType testFile) (fileSize testFile) w2
                   in case unlinkSync env (filePath testFile) w3 of
                        (Inr u, w4) \<Rightarrow>
                          (Inr (), emit (Out TInfo (''Cleaned up local test file: ''
                                                   @ filePath testFile)) w4)
                      | (Inl e, w4) \<Rightarrow>
                          (Inr (), emit (Out TWarn (''Failed to cleanup local test file: ''
                                                   @ render (message e))) w4)))"

section \<open>Listing the files of a bucket\<close>

text \<open>\<^verbatim>\<open>item.metadata?.size || 0\<close> and \<^verbatim>\<open>item.metadata?.mimetype || "N/A"\<close>\<close>

definition itemSize :: "entry \<Rightarrow> nat" where
  "itemSize item =
     (case metadata item of
        None \<Rightarrow> 0
      | Some m \<Rightarrow> (case size_meta m of None \<Rightarrow> 0 | Some n \<Rightarrow> n))"

definition itemMime :: "entry \<Rightarrow> string" where
  "itemMime item =
     (case metadata item of None \<Rightarrow> ''N/A'' | Some m \<Rightarrow> orElse (mimetype m) ''N/A'')"

text \<open>The body of \<^verbatim>\<open>data.forEach((item) => ...)\<close>: the events of one entry.\<close>

definition showItem :: "env \<Rightarrow> string \<Rightarrow> string \<Rightarrow> entry \<Rightarrow> event list" where
  "showItem env bucketName pfx item =
     (let isDir = (\<not> truthy (id_entry item));
          itemMeta = (if isDir then ''(Directory)''
                      else ''('' @ formatBytes env (itemSize item) @ '', MIME: ''
                           @ itemMime item @ '')'')
      in Item (if isDir then Directory else File) (name item) itemMeta
         # (if \<not> isDir
            then (let objectPath = (if pfx \<noteq> [] then pfx @ ''/'' else []) @ name item;
                      publicUrl = getPublicUrl env bucketName objectPath
                  in GetPublicUrl bucketName objectPath
                     # (if truthy publicUrl then [Line (''   URL: '' @ render publicUrl)]
                        else []))
            else []))"

text \<open>The handler of menu entry 6; \<open>bucketName\<close> and \<open>pfx\<close> are the two answers of
  the user.\<close>

definition showBucketFiles :: "env \<Rightarrow> string \<Rightarrow> string \<Rightarrow> world \<Rightarrow> world" where
  "showBucketFiles env bucketName pfx w0 =
     (let w = emits [Clear, Out TBanner (''LIST FILES IN BUCKET ==='' @ [newline]),
                     Asked ''Enter bucket name:''] w0
      in if bucketName = []
         then emit (Out TError ''Bucket name required.'') w
         else
           (let w1 = emits [Asked (''Enter path prefix (optional, e.g., '' @ [CHR 0x27]
                                   @ ''folder/subfolder'' @ [CHR 0x27] @ ''):''),
                            Out TInfo (''Listing files in '' @ [CHR 0x27] @ bucketName
                                       @ [CHR 0x27] @ '' (prefix: '' @ [CHR 0x27]
                                       @ (if pfx = [] then ''/'' else pfx)
                                       @ [CHR 0x27] @ '')...'')] w;
                caught = (\<lambda>e v. emit (Out TError (''Unexpected error listing files: ''
                                                   @ render (message e))) v)
            in case supabase w1 of
                 None \<Rightarrow> caught noClient w1
               | Some c \<Rightarrow>
                   (let w2 = emit (ListFiles bucketName pfx 100 0) w1
                    in case listFiles env bucketName pfx 100 0 of
                         Inl e \<Rightarrow> caught e w2
                       | Inr (Fail e) \<Rightarrow>
                           emits [Out TError (''Failed to list files: '' @ render (message e)),
                                  Out TTip (getErrorHint e)] w2
                       | Inr (Data items) \<Rightarrow>
                           if items = []
                           then emit (Out TWarn ''No files or folders found at this location.'') w2
                           else emits (Out TSuccess (''Found '' @ showNat (length items)
                                                     @ '' items:'' @ [newline])
                                       # concat (map (showItem env bucketName pfx) items))
                                      w2)))"

section \<open>The download test\<close>

text \<open>The \<^verbatim>\<open>try\<close> block of \<^verbatim>\<open>checkDownload\<close> with its \<^verbatim>\<open>catch\<close>: the download
  call, the report of its result and, on success, the inspection copy written to
  \<^verbatim>\<open>path.join(TEMP_DIR_PATH, `download_${path.basename(filePath)}`)\<close>. Whatever is
  thrown inside is caught and logged, so the block always hands on a state.\<close>

definition downloadAttempt :: "env \<Rightarrow> string \<Rightarrow> string \<Rightarrow> world \<Rightarrow> world" where
  "downloadAttempt env bucketName objectPath w =
     (let caught = (\<lambda>e v. emit (Out TError (''Critical download exception: ''
                                            @ render (message e))) v)
      in case supabase w of
           None \<Rightarrow> caught noClient w
         | Some c \<Rightarrow>
             (let v = emit (Download bucketName objectPath) w
              in case download env bucketName objectPath of
                   Inl e \<Rightarrow> caught e v
                 | Inr (Fail e) \<Rightarrow>
                     emits [Out TError (''Download FAILED: '' @ render (message e)),
                            Out TTip (getErrorHint e)] v
                 | Inr (Data b) \<Rightarrow>
                     (let duration = endTime env - startTime env;
                          v1 = emit (Out TSuccess
                                 (''Download SUCCEEDED in '' @ showInt duration
                                  @ ''ms. Size: '' @ formatBytes env (size_blob b)
                                  @ '', Type: '' @ type_blob b)) v;
                          dlPath = pathJoin (tempDir env)
                                     (''download_'' @ basename objectPath)
                      in case writeFileSync dlPath (bytes_blob b) v1 of
                           (Inl e, v2) \<Rightarrow> caught e v2
                         | (Inr u, v2) \<Rightarrow>
                             emit (Out TInfo (''File saved locally to: ''
                                     @ dlPath @ '' (for inspection)'')) v2)))"

text \<open>The handler of menu entry 7; \<open>bucketName\<close> and \<open>objectPath\<close> are the two
  answers of the user (the source calls the second \<^verbatim>\<open>filePath\<close>). The second step
  stands after the \<^verbatim>\<open>try\<close> block, outside any \<^verbatim>\<open>try\<close>.\<close>

definition checkDownload ::
  "env \<Rightarrow> string \<Rightarrow> string \<Rightarrow> world \<Rightarrow> (js_error + unit) \<times> world"
where
  "checkDownload env bucketName objectPath w0 =
     (let w = emits [Clear, Out TBanner (''DOWNLOAD TEST ==='' @ [newline]),
                     Asked ''Enter bucket name:''] w0
      in if bucketName = []
         then (Inr (), emit (Out TError ''Bucket name required.'') w)
         else
           (let w1 = emit (Asked ''Enter full file path in bucket:'') w
            in if objectPath = []
               then (Inr (), emit (Out TError ''File path required.'') w1)
               else
                 (let w2 = emit (Out TInfo ([newline]
                              @ ''1. Attempting download via Supabase client: ''
                              @ bucketName @ ''/'' @ objectPath)) w1;
                      w3 = downloadAttempt env bucketName objectPath w2;
                      w4 = emit (Out TInfo ([newline]
                              @ ''2. Checking public URL accessibility (if any):'')) w3
                  in case supabase w4 of
                       None \<Rightarrow> (Inl noClient, w4)
                     | Some c \<Rightarrow>
                         (let w5 = emit (GetPublicUrl bucketName objectPath) w4;
                              publicUrl = getPublicUrl env bucketName objectPath
                          in if truthy publicUrl
                             then (let w6 = emit (Out TInfo (''Public URL: ''
                                                             @ render publicUrl)) w5
                                   in case checkUrl env (render publicUrl) w6 of
                                        (Inl e, w7) \<Rightarrow> (Inl e, w7)
                                      | (Inr publicUrlCheck, w7) \<Rightarrow>
                                          (Inr (),
                                           if accessible publicUrlCheck
                                           then emit (Out TSuccess
                                                  (''Public URL accessible (Status: ''
                                                   @ showInt (statusCode publicUrlCheck)
                                                   @ '').'')) w7
                                           else emit (Out TWarn
                                                  (''Public URL check (Status: ''
                                                   @ showInt (statusCode publicUrlCheck)
                                                   @ '', Error: ''
                                                   @ orElse (error publicUrlCheck) ''N/A''
                                                   @ ''). RLS/CORS/private bucket?'')) w7))
                             else (Inr (), emit (Out TWarn
                                     ''Could not retrieve public URL for this file.'') w5)))))"

section \<open>The connectivity test\<close>

text \<open>The report of step 3 for a probe result.\<close>

definition corsReport :: "probe \<Rightarrow> event list" where
  "corsReport corsCheck =
     (if accessible corsCheck \<or> statusCode corsCheck = 400
      then [Out TSuccess (''Storage public endpoint seems accessible (Status: ''
                          @ showInt (statusCode corsCheck) @ '').'')]
      else [Out TWarn (''Storage public endpoint check (Status: ''
                       @ showInt (statusCode corsCheck) @ '', Error: ''
                       @ orElse (error corsCheck) ''N/A'' @ ''). Possible CORS issue.''),
            Out TTip ''Verify CORS settings in Supabase Dashboard: Project Settings > API > Storage.''])"

text \<open>The handler of menu entry 1. A rejection of \<^verbatim>\<open>getUser()\<close> is turned into an
  error value by the \<^verbatim>\<open>.catch\<close> on it; \<^verbatim>\<open>listBuckets()\<close> and the probe are
  awaited outside any \<^verbatim>\<open>try\<close>.\<close>

definition checkConnectivity :: "env \<Rightarrow> world \<Rightarrow> (js_error + unit) \<times> world" where
  "checkConnectivity env w0 =
     (let w = emits [Clear, Out TBanner (''CONNECTION & CONFIGURATION TEST ==='' @ [newline]),
                     Out TInfo ''1. Basic Supabase Client & Auth Status:''] w0
      in case supabase w of
           None \<Rightarrow> (Inr (), emit (Out TError ''Supabase client instance MISSING.'') w)
         | Some c \<Rightarrow>
             (let w1 = emits [Out TSuccess ''Supabase client instance exists.'', GetUser] w;
                  (usr, userError) =
                     (case getUser env of
                        Inl e \<Rightarrow> (None, Some e)
                      | Inr (Fail e) \<Rightarrow> (None, Some e)
                      | Inr (Data u) \<Rightarrow> (u, None));
                  session =
                     (case usr of
                        Some u \<Rightarrow>
                          emit (Out TSuccess (''Authenticated as user: ''
                                  @ render (id_user u) @ '' ('' @ render (role u) @ '')'')) w1
                      | None \<Rightarrow>
                          emit (Out TInfo ''No active user session (normal for service key or unauthenticated anon key).'') w1);
                  w2 = (case userError of
                          None \<Rightarrow> session
                        | Some e \<Rightarrow>
                            if message e \<noteq> Str ''Auth session missing!''
                            then emit (Out TWarn (''Auth check warning: ''
                                        @ render (message e))) w1
                            else session);
                  w3 = emits [Out TInfo ([newline] @ ''2. Storage API Test (Listing Buckets):''),
                              ListBuckets] w2
              in case listBuckets env of
                   Inl e \<Rightarrow> (Inl e, w3)
                 | Inr r \<Rightarrow>
                     (let w4 = (case r of
                                  Fail e \<Rightarrow>
                                    emits [Out TError (''Storage API test FAILED: ''
                                                       @ render (message e)),
                                           Out TTip (getErrorHint e)] w3
                                | Data buckets \<Rightarrow>
                                    emit (Out TSuccess (''Storage API accessible. Found ''
                                            @ showNat (length buckets) @ '' buckets.'')) w3);
                          w5 = emit (Out TInfo ([newline]
                                  @ ''3. CORS Check (Public Storage Endpoint):'')) w4;
                          supabaseUrl = getenv env ENV_SUPABASE_URL
                      in if truthy supabaseUrl
                         then (case checkUrl env (render supabaseUrl
                                                  @ ''/storage/v1/object/public/'') w5 of
                                 (Inl e, w6) \<Rightarrow> (Inl e, w6)
                               | (Inr corsCheck, w6) \<Rightarrow> (Inr (), emits (corsReport corsCheck) w6))
                         else (Inr (), emit (Out TWarn
                                 ''Supabase URL not set, cannot perform CORS check.'') w5))))"

section \<open>A sample environment\<close>

text \<open>
  The theorems below are tried on one concrete environment. Its \<open>urlParses\<close> stands
  for \<^verbatim>\<open>new URL\<close> on the strings tried here: a string parses when it starts with a
  scheme and, for \<^verbatim>\<open>http\<close> and \<^verbatim>\<open>https\<close>, something is left for the host
  after the slashes. Its \<open>httpGet\<close> follows what
  Node documents for \<^verbatim>\<open>http.get\<close> and \<^verbatim>\<open>https.get\<close> given a string: the string is
  parsed as a URL, whose scheme is read without regard to case, and the call throws
  \<^verbatim>\<open>ERR_INVALID_URL\<close> when it does not parse and \<^verbatim>\<open>ERR_INVALID_PROTOCOL\<close> when the
  scheme is not the module's own; only then does a request exist. Its \<open>upload\<close> follows
  the client library's declaration \<^verbatim>\<open>upload(path, fileBody, fileOptions)\<close>: the first
  argument is the object path, on which the library calls \<^verbatim>\<open>replace\<close> as on a string
  and which it reports back as \<^verbatim>\<open>data.path\<close>.
\<close>

definition isLetter :: "char \<Rightarrow> bool" where
  "isLetter c = (let n = (of_char c :: nat) in (65 \<le> n \<and> n \<le> 90) \<or> (97 \<le> n \<and> n \<le> 122))"

definition isSchemeChar :: "char \<Rightarrow> bool" where
  "isSchemeChar c =
     (let n = (of_char c :: nat)
      in isLetter c \<or> (48 \<le> n \<and> n \<le> 57) \<or> c = CHR ''+'' \<or> c = CHR ''-'' \<or> c = CHR ''.'')"

definition urlScheme :: "string \<Rightarrow> string option" where
  "urlScheme url =
     (case takeWhile (\<lambda>c. c \<noteq> CHR '':'') url of
        [] \<Rightarrow> None
      | c # cs \<Rightarrow>
          if isLetter c \<and> list_all isSchemeChar cs \<and> length (c # cs) < length url
          then Some (toLowerCase (c # cs)) else None)"

definition sampleUrlParses :: "string \<Rightarrow> bool" where
  "sampleUrlParses url =
     (case urlScheme url of
        None \<Rightarrow> False
      | Some sch \<Rightarrow>
          if sch = ''http'' \<or> sch = ''https''
          then dropWhile (\<lambda>c. c = CHR ''/'' \<or> c = CHR 0x5C) (drop (length sch + 1) url) \<noteq> []
          else True)"

fun moduleScheme :: "http_module \<Rightarrow> string" where
  "moduleScheme Http = ''http''"
| "moduleScheme Https = ''https''"

definition nodeGet ::
  "(string \<Rightarrow> net_event) \<Rightarrow> http_module \<Rightarrow> string \<Rightarrow> nat \<Rightarrow> get_result"
where
  "nodeGet net m url ms =
     (case (if sampleUrlParses url then urlScheme url else None) of
        None \<Rightarrow> GetThrew \<lparr>message = Str ''Invalid URL''\<rparr>
      | Some sch \<Rightarrow>
          if sch \<noteq> moduleScheme m
          then GetThrew \<lparr>message = Str (''Protocol '' @ [dquote] @ sch @ '':'' @ [dquote]
                                       @ '' not supported. Expected '' @ [dquote]
                                       @ moduleScheme m @ '':'' @ [dquote])\<rparr>
          else Emitted (net url) [])"

definition libraryUpload ::
  "string \<Rightarrow> js_arg \<Rightarrow> js_arg \<Rightarrow> upload_options \<Rightarrow> js_error + upload_data reply"
where
  "libraryUpload bucketName objectPath fileBody opts =
     (case objectPath of
        Text p \<Rightarrow> Inr (Data \<lparr>path = p\<rparr>)
      | Missing \<Rightarrow>
          Inl \<lparr>message = Str (''Cannot read properties of undefined (reading ''
                                @ [CHR 0x27] @ ''replace'' @ [CHR 0x27] @ '')'')\<rparr>
      | _ \<Rightarrow> Inl \<lparr>message = Str ''path.replace is not a function''\<rparr>)"

definition demoEnv :: env where
  "demoEnv =
     \<lparr>processEnv = [ENV_SUPABASE_URL \<mapsto> ''https://demo.supabase.co'',
                    ENV_SERVICE_KEY \<mapsto> ''service-role-key''],
      tempDir = ''/app/supabase-debug-temp'',
      urlParses = sampleUrlParses,
      createClient = (\<lambda>u k. Inr \<lparr>clientUrl = u, clientKey = k\<rparr>),
      httpGet = nodeGet (\<lambda>u. Response 200),
      upload = libraryUpload,
      getPublicUrl = (\<lambda>b p. Str (''https://demo.supabase.co/storage/v1/object/public/''
                                   @ b @ ''/'' @ p)),
      download = (\<lambda>b p. Inr (Data \<lparr>size_blob = 5, type_blob = ''text/plain'',
                                      bytes_blob = ''hello''\<rparr>)),
      listFiles = (\<lambda>b p lim off. Inr (Data
                     [\<lparr>name = ''docs'', id_entry = Null, metadata = None\<rparr>,
                      \<lparr>name = ''cat.png'', id_entry = Str ''7f3a'', metadata = None\<rparr>])),
      listBuckets = Inr (Data [''photos'']),
      getUser = Inr (Fail \<lparr>message = Str ''Auth session missing!''\<rparr>),
      unlinkRefused = (\<lambda>p. None),
      fmtBytes = (\<lambda>n. showNat n @ '' Bytes''),
      startTime = 1000,
      endTime = 1042,
      isoNow = ''2024-01-01T00:00:00.000Z''\<rparr>"

text \<open>The same project when the object asked for is missing: the download call returns
  an API error and the public URL answers 404.\<close>

definition notFoundEnv :: env where
  "notFoundEnv =
     demoEnv\<lparr>download := (\<lambda>b p. Inr (Fail \<lparr>message = Str ''Object not found''\<rparr>)),
             httpGet := (\<lambda>m u ms. Emitted (Response 404) [])\<rparr>"

text \<open>The same project with its URL written with a capital scheme in the environment.\<close>

definition upperCaseEnv :: env where
  "upperCaseEnv =
     demoEnv\<lparr>processEnv := [ENV_SUPABASE_URL \<mapsto> ''HTTPS://demo.supabase.co'',
                            ENV_SERVICE_KEY \<mapsto> ''service-role-key'']\<rparr>"

text \<open>The state when the program starts, and the state once the client exists.\<close>

definition freshWorld :: world where
  "freshWorld = \<lparr>supabase = None, dirs = {}, files = Map.empty, trace = []\<rparr>"

definition readyWorld :: world where
  "readyWorld = freshWorld\<lparr>supabase := Some \<lparr>clientUrl = ''https://demo.supabase.co'',
                                                clientKey = ''service-role-key''\<rparr>\<rparr>"

section \<open>Properties of the error hint classifier\<close>

lemma toLowerChar_small:
  "97 \<le> (of_char k :: nat) \<Longrightarrow> (of_char k :: nat) \<le> 122 \<Longrightarrow> toLowerChar k = k"
  by (simp add: toLowerChar_def Let_def)

lemma toLowerChar_capitalOf:
  "97 \<le> (of_char k :: nat) \<Longrightarrow> (of_char k :: nat) \<le> 122 \<Longrightarrow> toLowerChar (capitalOf k) = k"
  by (auto simp add: toLowerChar_def capitalOf_def Let_def)

lemma anyCasing_toLowerCase:
  assumes "anyCasing s kw"
    and "\<forall>k\<in>set kw. 97 \<le> (of_char k :: nat) \<and> (of_char k :: nat) \<le> 122"
  shows "toLowerCase s = kw"
proof -
  have "list_all2 (\<lambda>c k. toLowerChar c = k) s kw"
  proof (rule list.rel_mono_strong [OF assms(1) [unfolded anyCasing_def]])
    fix c k
    assume k: "k \<in> set kw" and ck: "c = k \<or> c = capitalOf k"
    from k assms(2) have r: "97 \<le> (of_char k :: nat)" "(of_char k :: nat) \<le> 122"
      by blast+
    from ck show "toLowerChar c = k"
    proof
      assume "c = k"
      then show ?thesis using toLowerChar_small [OF r] by simp
    next
      assume "c = capitalOf k"
      then show ?thesis using toLowerChar_capitalOf [OF r] by simp
    qed
  qed
  then have "list_all2 (=) (map toLowerChar s) kw"
    by (simp only: list_all2_map1)
  then show ?thesis
    by (simp only: toLowerCase_def list_all2_eq)
qed

lemma includesStr_middle: "includesStr (p @ k @ q) k"
  by (simp add: includesStr_def)

lemma toLowerCase_append: "toLowerCase (a @ b) = toLowerCase a @ toLowerCase b"
  by (simp add: toLowerCase_def)

text \<open>
  Claim C3. If the message of an error contains \<^verbatim>\<open>unauthorized\<close> in any casing,
  \<^verbatim>\<open>getErrorHint\<close> returns the auth hint, whatever stands before and after it in
  the message: the auth keywords are tested first.
\<close>

theorem C3_unauthorized_any_casing:
  assumes "anyCasing s ''unauthorized''"
    and "message e = Str (pre @ s @ post)"
  shows "getErrorHint e = authHint"
proof -
  have "toLowerCase s = ''unauthorized''"
    by (rule anyCasing_toLowerCase [OF assms(1)]) simp
  then have "lowerMessage (message e)
             = toLowerCase pre @ ''unauthorized'' @ toLowerCase post"
    by (simp add: assms(2) toLowerCase_append)
  then have "includesStr (lowerMessage (message e)) ''unauthorized''"
    by (simp only: includesStr_middle)
  then show ?thesis
    unfolding getErrorHint_def Let_def
    by (intro if_P disjI1)
qed


theorem C3_unauthorized_any_casing_witness:
  "anyCasing ''UnAuthorized'' ''unauthorized''
   \<and> getErrorHint \<lparr>message = Str (''Bucket not found; '' @ ''UnAuthorized''
                                  @ '' - timeout, limit, already exists'')\<rparr> = authHint"
proof -
  have a: "anyCasing ''UnAuthorized'' ''unauthorized''" by code_simp
  show ?thesis
    using a C3_unauthorized_any_casing [OF a, of "\<lparr>message = Str (''Bucket not found; '' @ ''UnAuthorized''
                                  @ '' - timeout, limit, already exists'')\<rparr>" "''Bucket not found; ''" "'' - timeout, limit, already exists''"]
    by simp
qed

text \<open>
  Claim C10. For an error whose \<^verbatim>\<open>message\<close> is \<^verbatim>\<open>undefined\<close> or \<^verbatim>\<open>null\<close>,
  \<^verbatim>\<open>getErrorHint\<close> returns the fallback hint, which quotes
  \<^verbatim>\<open>Unknown Supabase error\<close>. The optional chaining and the two defaults leave no
  path that throws, so the model has none.
\<close>

theorem C10_missing_message_fallback:
  assumes "message e = Undefined \<or> message e = Null"
  shows "getErrorHint e
           = ''Consult Supabase docs for: '' @ [dquote] @ ''Unknown Supabase error'' @ [dquote]
         \<and> includesStr (getErrorHint e) ''Unknown Supabase error''"
proof -
  have m: "lowerMessage (message e) = []" using assms by auto
  have i: "\<And>k. k \<noteq> [] \<Longrightarrow> \<not> includesStr [] k" by (simp add: includesStr_def)
  have o: "orElse (message e) ''Unknown Supabase error'' = ''Unknown Supabase error''"
    using assms by auto
  have h: "getErrorHint e
           = ''Consult Supabase docs for: '' @ [dquote] @ ''Unknown Supabase error'' @ [dquote]"
    unfolding getErrorHint_def Let_def m o by (simp add: i)
  have "includesStr (''Consult Supabase docs for: '' @ [dquote] @ ''Unknown Supabase error'' @ [dquote]) ''Unknown Supabase error''"
    using includesStr_middle [of "''Consult Supabase docs for: '' @ [dquote]" "''Unknown Supabase error''" "[dquote]"] by simp
  with h show ?thesis by simp
qed

theorem C10_missing_message_fallback_witness:
  "(message \<lparr>message = Null\<rparr> = Undefined \<or> message \<lparr>message = Null\<rparr> = Null)
   \<and> getErrorHint \<lparr>message = Null\<rparr>
       = ''Consult Supabase docs for: '' @ [dquote] @ ''Unknown Supabase error'' @ [dquote]"
  using C10_missing_message_fallback [of "\<lparr>message = Null\<rparr>"] by simp

section \<open>Properties of the reachability probe\<close>

lemma trace_emit: "trace (emit e w) = trace w @ [e]"
  by (simp add: emit_def)

lemma trace_emits: "trace (emits es w) = trace w @ es"
  by (simp add: emits_def)

lemma supabase_emit: "supabase (emit e w) = supabase w"
  by (simp add: emit_def)

lemma supabase_emits: "supabase (emits es w) = supabase w"
  by (simp add: emits_def)

lemma checkUrl_request:
  "checkUrl env url w =
     (case httpGet env (if startsWith url ''https:'' then Https else Http) url 5000 of
        GetThrew e \<Rightarrow> Inl e
      | Emitted ev evs \<Rightarrow> Inr (onEvent ev),
      emit (HttpGet (if startsWith url ''https:'' then Https else Http) url 5000) w)"
  by (simp add: checkUrl_def Let_def split: get_result.splits)

text \<open>
  Once the request exists, that is, once \<^verbatim>\<open>protocol.get\<close> has returned it,
  \<^verbatim>\<open>checkUrl\<close> does not reject: the first event of the request resolves the promise,
  an \<^verbatim>\<open>error\<close> event to \<^verbatim>\<open>{accessible: false, statusCode: 0, error: "Network error"}\<close>,
  the \<^verbatim>\<open>timeout\<close> event of the 5000 ms request timeout to the same with
  \<^verbatim>\<open>"Timeout"\<close>, and a response with status \<open>s\<close> to \<^verbatim>\<open>accessible\<close> exactly for
  \<open>200 \<le> s < 400\<close> and \<^verbatim>\<open>statusCode\<close> \<open>s\<close>, without an \<^verbatim>\<open>error\<close> field.
\<close>

lemma checkUrl_resolves_on_first_event:
  assumes "httpGet env (if startsWith url ''https:'' then Https else Http) url 5000
             = Emitted ev evs"
  shows "\<exists>r. fst (checkUrl env url w) = Inr r
           \<and> (ev = NetError \<longrightarrow>
                 r = \<lparr>accessible = False, statusCode = 0, error = Str ''Network error''\<rparr>)
           \<and> (ev = TimedOut \<longrightarrow>
                 r = \<lparr>accessible = False, statusCode = 0, error = Str ''Timeout''\<rparr>)
           \<and> (\<forall>s. ev = Response s \<longrightarrow>
                 r = \<lparr>accessible = (200 \<le> s \<and> s < 400), statusCode = s, error = Undefined\<rparr>)"
  using assms by (cases ev) (simp_all add: checkUrl_request)

text \<open>
  Claim C2 says that \<^verbatim>\<open>checkUrl\<close> never raises, whatever the URL: it always resolves
  to \<^verbatim>\<open>{accessible, statusCode, error?}\<close>. The function is built for that, with a
  promise that only ever resolves, but the module is chosen by
  \<^verbatim>\<open>url.startsWith("https:")\<close>, which is sensitive to case. The well-formed URL
  \<^verbatim>\<open>HTTPS://demo.supabase.co\<close> is therefore handed to \<^verbatim>\<open>http.get\<close>, which refuses
  its scheme; the exception leaves the promise's executor and the promise rejects,
  while the same URL in small letters is probed. With that URL in the environment,
  \<^verbatim>\<open>new URL\<close> accepts it, the client is created, and start-up then fails on the probe
  with \<^verbatim>\<open>Supabase client initialization failed\<close>.
\<close>

theorem C2_checkUrl_rejects_capital_scheme:
  "urlParses demoEnv ''HTTPS://demo.supabase.co''
   \<and> fst (checkUrl demoEnv ''HTTPS://demo.supabase.co'' freshWorld)
       = Inl \<lparr>message = Str (''Protocol '' @ [dquote] @ ''https:'' @ [dquote]
                              @ '' not supported. Expected '' @ [dquote] @ ''http:''
                              @ [dquote])\<rparr>
   \<and> trace (snd (checkUrl demoEnv ''HTTPS://demo.supabase.co'' freshWorld))
       = [HttpGet Http ''HTTPS://demo.supabase.co'' 5000]
   \<and> fst (checkUrl demoEnv ''https://demo.supabase.co'' freshWorld)
       = Inr \<lparr>accessible = True, statusCode = 200, error = Undefined\<rparr>
   \<and> fst (validateEnvAndInitClient upperCaseEnv freshWorld) = False
   \<and> trace (snd (validateEnvAndInitClient upperCaseEnv freshWorld))
       = [Out TInfo ''Validating environment & initializing Supabase client...'',
          Out TSuccess ''NEXT_PUBLIC_SUPABASE_URL: HTTPS://demo.supabase.co'',
          Out TSuccess ''Supabase Key: Service Role (SET)'',
          CreateClient ''HTTPS://demo.supabase.co'' ''service-role-key'',
          Out TSuccess ''Supabase client initialized.'',
          Out TInfo ''Pinging Supabase URL...'',
          HttpGet Http ''HTTPS://demo.supabase.co'' 5000,
          Out TError (''Supabase client initialization failed: Protocol '' @ [dquote]
                      @ ''https:'' @ [dquote] @ '' not supported. Expected '' @ [dquote]
                      @ ''http:'' @ [dquote])]"
  by code_simp

section \<open>Properties of start-up validation\<close>

text \<open>
  Claim C4. If the storage endpoint URL is set in the environment and \<^verbatim>\<open>new URL\<close>
  rejects it, \<^verbatim>\<open>validateEnvAndInitClient\<close> returns \<^verbatim>\<open>false\<close>, never calls
  \<^verbatim>\<open>createClient\<close>, and leaves the module variable \<^verbatim>\<open>supabase\<close> as it was
  (undefined at start-up).
\<close>

theorem C4_malformed_url_aborts:
  assumes "processEnv env ENV_SUPABASE_URL = Some u"
    and "\<not> urlParses env u"
  shows "fst (validateEnvAndInitClient env w) = False
         \<and> supabase (snd (validateEnvAndInitClient env w)) = supabase w
         \<and> (\<exists>es. trace (snd (validateEnvAndInitClient env w)) = trace w @ es
                 \<and> (\<forall>a b. CreateClient a b \<notin> set es))"
  using assms
  by (auto simp add: validateEnvAndInitClient_def Let_def getenv_def emit_def split: if_splits)


theorem C4_malformed_url_aborts_witness:
  "processEnv (demoEnv\<lparr>processEnv := [ENV_SUPABASE_URL \<mapsto> ''demo.supabase.co'',
                                         ENV_SERVICE_KEY \<mapsto> ''service-role-key'']\<rparr>)
     ENV_SUPABASE_URL = Some ''demo.supabase.co''
   \<and> \<not> urlParses (demoEnv\<lparr>processEnv := [ENV_SUPABASE_URL \<mapsto> ''demo.supabase.co'',
                                         ENV_SERVICE_KEY \<mapsto> ''service-role-key'']\<rparr>)
         ''demo.supabase.co''
   \<and> fst (validateEnvAndInitClient
             (demoEnv\<lparr>processEnv := [ENV_SUPABASE_URL \<mapsto> ''demo.supabase.co'',
                                         ENV_SERVICE_KEY \<mapsto> ''service-role-key'']\<rparr>)
             freshWorld) = False
   \<and> supabase (snd (validateEnvAndInitClient
             (demoEnv\<lparr>processEnv := [ENV_SUPABASE_URL \<mapsto> ''demo.supabase.co'',
                                         ENV_SERVICE_KEY \<mapsto> ''service-role-key'']\<rparr>)
             freshWorld)) = None"
proof -
  let ?env = "demoEnv\<lparr>processEnv := [ENV_SUPABASE_URL \<mapsto> ''demo.supabase.co'',
                                         ENV_SERVICE_KEY \<mapsto> ''service-role-key'']\<rparr>"
  have h1: "processEnv ?env ENV_SUPABASE_URL = Some ''demo.supabase.co''"
    by (simp add: ENV_SUPABASE_URL_def ENV_SERVICE_KEY_def)
  have h2: "\<not> urlParses ?env ''demo.supabase.co''"
    by (simp add: demoEnv_def sampleUrlParses_def urlScheme_def)
  from C4_malformed_url_aborts [OF h1 h2, of freshWorld] h1 h2
  show ?thesis by (simp add: freshWorld_def)
qed

section \<open>Properties of the connectivity test\<close>

lemma accessible_onEvent:
  "accessible (onEvent ev) \<longleftrightarrow> 200 \<le> statusCode (onEvent ev) \<and> statusCode (onEvent ev) < 400"
  by (cases ev) simp_all

lemma corsReport_success:
  "(\<exists>t. corsReport p = [Out TSuccess t]) \<longleftrightarrow> (accessible p \<or> statusCode p = 400)"
  by (simp add: corsReport_def)

lemma corsReport_warning:
  "\<not> (accessible p \<or> statusCode p = 400) \<Longrightarrow> \<exists>t t'. corsReport p = [Out TWarn t, Out TTip t']"
  by (simp add: corsReport_def)

lemma checkConnectivity_trace:
  assumes "supabase w = Some c"
    and "listBuckets env = Inr r"
    and "processEnv env ENV_SUPABASE_URL = Some u" and "u \<noteq> []"
    and "httpGet env m (u @ ''/storage/v1/object/public/'') 5000 = Emitted ev evs"
    and "m = (if startsWith (u @ ''/storage/v1/object/public/'') ''https:'' then Https else Http)"
  shows "\<exists>pre. trace (snd (checkConnectivity env w))
           = trace w @ pre @ HttpGet m (u @ ''/storage/v1/object/public/'') 5000
                              # corsReport (onEvent ev)"
  using assms
  by (auto simp add: checkConnectivity_def Let_def getenv_def checkUrl_request
        trace_emit trace_emits supabase_emit supabase_emits
      split: sum.splits reply.splits option.splits if_splits prod.splits)

text \<open>
  Claim C7. In \<^verbatim>\<open>checkConnectivity\<close>, with the client present, the bucket listing
  returned and the URL set, the probe of \<^verbatim>\<open><url>/storage/v1/object/public/\<close> is the
  last call, and what follows it is a single success line exactly when the probe result
  has \<^verbatim>\<open>accessible\<close> true or \<^verbatim>\<open>statusCode\<close> 400; otherwise it is a warning followed
  by a tip. \<^verbatim>\<open>accessible\<close> is true exactly for a status from 200 to 399, so the
  statuses 0 and 404 give the warning.
\<close>

theorem C7_public_endpoint_report:
  assumes "supabase w = Some c"
    and "listBuckets env = Inr r"
    and "processEnv env ENV_SUPABASE_URL = Some u" and "u \<noteq> []"
    and "httpGet env m (u @ ''/storage/v1/object/public/'') 5000 = Emitted ev evs"
    and "m = (if startsWith (u @ ''/storage/v1/object/public/'') ''https:'' then Https else Http)"
  shows "\<exists>pre rep.
           trace (snd (checkConnectivity env w))
             = trace w @ pre @ HttpGet m (u @ ''/storage/v1/object/public/'') 5000 # rep
           \<and> ((\<exists>t. rep = [Out TSuccess t])
                \<longleftrightarrow> (accessible (onEvent ev) \<or> statusCode (onEvent ev) = 400))
           \<and> (\<not> (accessible (onEvent ev) \<or> statusCode (onEvent ev) = 400)
                \<longrightarrow> (\<exists>t t'. rep = [Out TWarn t, Out TTip t']))
           \<and> (accessible (onEvent ev)
                \<longleftrightarrow> 200 \<le> statusCode (onEvent ev) \<and> statusCode (onEvent ev) < 400)"
proof -
  from checkConnectivity_trace [OF assms] obtain pre where
    t: "trace (snd (checkConnectivity env w))
          = trace w @ pre @ HttpGet m (u @ ''/storage/v1/object/public/'') 5000
                             # corsReport (onEvent ev)"
    by blast
  show ?thesis
    using t corsReport_success [of "onEvent ev"] corsReport_warning [of "onEvent ev"]
      accessible_onEvent [of ev]
    by blast
qed

theorem C7_public_endpoint_report_witness:
  "supabase readyWorld = Some \<lparr>clientUrl = ''https://demo.supabase.co'',
                                 clientKey = ''service-role-key''\<rparr>
   \<and> listBuckets (demoEnv\<lparr>httpGet := \<lambda>m u ms. Emitted (Response 404) []\<rparr>)
       = Inr (Data [''photos''])
   \<and> processEnv (demoEnv\<lparr>httpGet := \<lambda>m u ms. Emitted (Response 404) []\<rparr>)
         ENV_SUPABASE_URL = Some ''https://demo.supabase.co''
   \<and> ''https://demo.supabase.co'' \<noteq> []
   \<and> httpGet (demoEnv\<lparr>httpGet := \<lambda>m u ms. Emitted (Response 404) []\<rparr>) Https
         (''https://demo.supabase.co'' @ ''/storage/v1/object/public/'') 5000
       = Emitted (Response 404) []
   \<and> Https = (if startsWith (''https://demo.supabase.co'' @ ''/storage/v1/object/public/'')
                     ''https:'' then Https else Http)
   \<and> (\<exists>pre t t'.
         trace (snd (checkConnectivity
                       (demoEnv\<lparr>httpGet := \<lambda>m u ms. Emitted (Response 404) []\<rparr>)
                       readyWorld))
           = trace readyWorld @ pre
             @ [HttpGet Https (''https://demo.supabase.co'' @ ''/storage/v1/object/public/'') 5000,
                Out TWarn t, Out TTip t'])"
proof -
  let ?env = "demoEnv\<lparr>httpGet := \<lambda>m u ms. Emitted (Response 404) []\<rparr>"
  have h1: "supabase readyWorld = Some \<lparr>clientUrl = ''https://demo.supabase.co'',
                                 clientKey = ''service-role-key''\<rparr>"
    by (simp add: readyWorld_def freshWorld_def)
  have h2: "listBuckets ?env = Inr (Data [''photos''])"
    by (simp add: demoEnv_def)
  have h3: "processEnv ?env ENV_SUPABASE_URL = Some ''https://demo.supabase.co''"
    by (simp add: demoEnv_def ENV_SUPABASE_URL_def ENV_SERVICE_KEY_def)
  have h4: "''https://demo.supabase.co'' \<noteq> []" by simp
  have h5: "httpGet ?env Https
         (''https://demo.supabase.co'' @ ''/storage/v1/object/public/'') 5000
       = Emitted (Response 404) []"
    by simp
  have h6: "Https = (if startsWith (''https://demo.supabase.co'' @ ''/storage/v1/object/public/'')
                     ''https:'' then Https else Http)"
    by (simp add: startsWith_def)
  from C7_public_endpoint_report [OF h1 h2 h3 h4 h5 h6]
  have "\<exists>pre t t'.
         trace (snd (checkConnectivity ?env readyWorld))
           = trace readyWorld @ pre
             @ [HttpGet Https (''https://demo.supabase.co'' @ ''/storage/v1/object/public/'') 5000,
                Out TWarn t, Out TTip t']"
    by fastforce
  with h1 h2 h3 h4 h5 h6 show ?thesis by blast
qed

section \<open>Properties of the file listing\<close>

lemma files_emit: "files (emit e w) = files w"
  by (simp add: emit_def)

lemma files_emits: "files (emits es w) = files w"
  by (simp add: emits_def)

lemma dirs_emit: "dirs (emit e w) = dirs w"
  by (simp add: emit_def)

lemma dirs_emits: "dirs (emits es w) = dirs w"
  by (simp add: emits_def)

lemma showItem_directory:
  "\<not> truthy (id_entry item) \<Longrightarrow>
   showItem env bucketName pfx item = [Item Directory (name item) ''(Directory)'']"
  by (simp add: showItem_def)

lemma showItem_file:
  "truthy (id_entry item) \<Longrightarrow>
   showItem env bucketName pfx item =
     Item File (name item)
       (''('' @ formatBytes env (itemSize item) @ '', MIME: '' @ itemMime item @ '')'')
     # GetPublicUrl bucketName ((if pfx \<noteq> [] then pfx @ ''/'' else []) @ name item)
     # (if truthy (getPublicUrl env bucketName
                     ((if pfx \<noteq> [] then pfx @ ''/'' else []) @ name item))
        then [Line (''   URL: '' @ render (getPublicUrl env bucketName
                     ((if pfx \<noteq> [] then pfx @ ''/'' else []) @ name item)))]
        else [])"
  by (simp add: showItem_def Let_def)

lemma showItem_no_probe: "e \<in> set (showItem env bucketName pfx item) \<Longrightarrow> e \<noteq> HttpGet m u ms"
  by (auto simp add: showItem_def Let_def split: if_splits)

lemma showBucketFiles_trace:
  assumes "supabase w = Some c" and "bucketName \<noteq> []"
    and "listFiles env bucketName pfx 100 0 = Inr (Data items)" and "items \<noteq> []"
  shows "trace (showBucketFiles env bucketName pfx w) =
           trace w
           @ [Clear, Out TBanner (''LIST FILES IN BUCKET ==='' @ [newline]),
              Asked ''Enter bucket name:'',
              Asked (''Enter path prefix (optional, e.g., '' @ [CHR 0x27]
                     @ ''folder/subfolder'' @ [CHR 0x27] @ ''):''),
              Out TInfo (''Listing files in '' @ [CHR 0x27] @ bucketName @ [CHR 0x27]
                         @ '' (prefix: '' @ [CHR 0x27] @ (if pfx = [] then ''/'' else pfx)
                         @ [CHR 0x27] @ '')...''),
              ListFiles bucketName pfx 100 0,
              Out TSuccess (''Found '' @ showNat (length items) @ '' items:'' @ [newline])]
           @ concat (map (showItem env bucketName pfx) items)"
  using assms
  by (simp add: showBucketFiles_def Let_def trace_emit trace_emits supabase_emit supabase_emits)

lemma itemSize_default:
  "metadata item = None \<or> (\<exists>m. metadata item = Some m \<and> size_meta m = None)
   \<Longrightarrow> itemSize item = 0"
  by (auto simp add: itemSize_def)

lemma itemMime_default:
  "metadata item = None \<or> (\<exists>m. metadata item = Some m \<and> \<not> truthy (mimetype m))
   \<Longrightarrow> itemMime item = ''N/A''"
proof (cases "metadata item")
  case None
  then show ?thesis by (simp add: itemMime_def)
next
  case (Some m)
  assume "metadata item = None \<or> (\<exists>m. metadata item = Some m \<and> \<not> truthy (mimetype m))"
  with Some have "\<not> truthy (mimetype m)" by simp
  then have "orElse (mimetype m) ''N/A'' = ''N/A''"
    by (cases "mimetype m") simp_all
  with Some show ?thesis by (simp add: itemMime_def)
qed

lemma showItem_file_url:
  assumes "truthy (id_entry item)"
    and "getPublicUrl env bucketName ((if pfx \<noteq> [] then pfx @ ''/'' else []) @ name item)
           = Str u"
    and "u \<noteq> []"
  shows "showItem env bucketName pfx item =
           [Item File (name item)
              (''('' @ formatBytes env (itemSize item) @ '', MIME: '' @ itemMime item @ '')''),
            GetPublicUrl bucketName ((if pfx \<noteq> [] then pfx @ ''/'' else []) @ name item),
            Line (''   URL: '' @ u)]"
  using assms(2) assms(3) by (simp add: showItem_file [OF assms(1)])

text \<open>
  Claim C5. An entry lacks an id when \<^verbatim>\<open>!item.id\<close> holds: the id is absent or
  \<^verbatim>\<open>null\<close>, as the service sends it for a folder (or empty); it has one when the id
  is a non-empty string. For every entry of a listing that \<^verbatim>\<open>showBucketFiles\<close>
  prints: an entry lacking an id is printed as a directory, with no call of
  \<^verbatim>\<open>getPublicUrl\<close> and no URL line; an entry with an id is printed as a file, its
  size \<open>0\<close> (shown as \<^verbatim>\<open>0 Bytes\<close>) when the metadata or its size is absent and its
  MIME type \<^verbatim>\<open>N/A\<close> when the metadata or its MIME type is absent, followed by the
  call of \<^verbatim>\<open>getPublicUrl\<close> and the line with the URL that call gives (the source
  guards the line by \<^verbatim>\<open>if (urlData?.publicUrl)\<close>). No request is made anywhere in
  the listing.
\<close>

theorem C5_listing_entries:
  assumes "supabase w = Some c" and "bucketName \<noteq> []"
    and "listFiles env bucketName pfx 100 0 = Inr (Data items)"
    and "item \<in> set items"
  shows "(\<exists>before after.
            trace (showBucketFiles env bucketName pfx w)
              = trace w @ before @ showItem env bucketName pfx item @ after
            \<and> (\<forall>e \<in> set (before @ showItem env bucketName pfx item @ after).
                  \<forall>m u ms. e \<noteq> HttpGet m u ms))
         \<and> (\<not> truthy (id_entry item) \<longrightarrow>
               showItem env bucketName pfx item = [Item Directory (name item) ''(Directory)''])
         \<and> (truthy (id_entry item) \<longrightarrow>
               showItem env bucketName pfx item =
                 Item File (name item)
                   (''('' @ formatBytes env (itemSize item) @ '', MIME: '' @ itemMime item @ '')'')
                 # GetPublicUrl bucketName ((if pfx \<noteq> [] then pfx @ ''/'' else []) @ name item)
                 # (if truthy (getPublicUrl env bucketName
                                 ((if pfx \<noteq> [] then pfx @ ''/'' else []) @ name item))
                    then [Line (''   URL: '' @ render (getPublicUrl env bucketName
                                 ((if pfx \<noteq> [] then pfx @ ''/'' else []) @ name item)))]
                    else []))
         \<and> (\<forall>u. truthy (id_entry item)
                  \<and> getPublicUrl env bucketName
                        ((if pfx \<noteq> [] then pfx @ ''/'' else []) @ name item) = Str u
                  \<and> u \<noteq> [] \<longrightarrow>
               showItem env bucketName pfx item =
                 [Item File (name item)
                    (''('' @ formatBytes env (itemSize item) @ '', MIME: '' @ itemMime item
                     @ '')''),
                  GetPublicUrl bucketName
                    ((if pfx \<noteq> [] then pfx @ ''/'' else []) @ name item),
                  Line (''   URL: '' @ u)])
         \<and> (metadata item = None \<or> (\<exists>m. metadata item = Some m \<and> size_meta m = None)
               \<longrightarrow> itemSize item = 0 \<and> formatBytes env (itemSize item) = ''0 Bytes'')
         \<and> (metadata item = None \<or> (\<exists>m. metadata item = Some m \<and> \<not> truthy (mimetype m))
               \<longrightarrow> itemMime item = ''N/A'')"
proof -
  let ?f = "showItem env bucketName pfx"
  let ?hd = "[Clear, Out TBanner (''LIST FILES IN BUCKET ==='' @ [newline]),
              Asked ''Enter bucket name:'',
              Asked (''Enter path prefix (optional, e.g., '' @ [CHR 0x27]
                     @ ''folder/subfolder'' @ [CHR 0x27] @ ''):''),
              Out TInfo (''Listing files in '' @ [CHR 0x27] @ bucketName @ [CHR 0x27]
                         @ '' (prefix: '' @ [CHR 0x27] @ (if pfx = [] then ''/'' else pfx)
                         @ [CHR 0x27] @ '')...''),
              ListFiles bucketName pfx 100 0,
              Out TSuccess (''Found '' @ showNat (length items) @ '' items:'' @ [newline])]"
  from assms(4) have ne: "items \<noteq> []" by auto
  from assms(4) obtain xs ys where split: "items = xs @ item # ys"
    by (meson split_list)
  have tr: "trace (showBucketFiles env bucketName pfx w)
              = trace w @ ?hd @ concat (map ?f items)"
    by (rule showBucketFiles_trace [OF assms(1) assms(2) assms(3) ne])
  have cc: "concat (map ?f items) = concat (map ?f xs) @ ?f item @ concat (map ?f ys)"
    by (simp add: split)
  have np: "\<forall>e \<in> set (concat (map ?f zs)). \<forall>m u ms. e \<noteq> HttpGet m u ms" for zs
    using showItem_no_probe by fastforce
  have nh: "\<forall>e \<in> set ?hd. \<forall>m u ms. e \<noteq> HttpGet m u ms"
    by simp
  have first: "\<exists>before after.
            trace (showBucketFiles env bucketName pfx w)
              = trace w @ before @ ?f item @ after
            \<and> (\<forall>e \<in> set (before @ ?f item @ after). \<forall>m u ms. e \<noteq> HttpGet m u ms)"
  proof (intro exI conjI)
    show "trace (showBucketFiles env bucketName pfx w)
            = trace w @ (?hd @ concat (map ?f xs)) @ ?f item @ concat (map ?f ys)"
      by (simp only: tr cc append_assoc)
    have "(?hd @ concat (map ?f xs)) @ ?f item @ concat (map ?f ys) = ?hd @ concat (map ?f items)"
      by (simp only: cc append_assoc)
    then show "\<forall>e \<in> set ((?hd @ concat (map ?f xs)) @ ?f item @ concat (map ?f ys)).
                 \<forall>m u ms. e \<noteq> HttpGet m u ms"
      using np [of items] nh by (simp only: set_append) blast
  qed
  have zero: "itemSize item = 0 \<Longrightarrow> formatBytes env (itemSize item) = ''0 Bytes''"
    by (simp add: formatBytes_def)
  have urlCase: "\<forall>u. truthy (id_entry item)
                  \<and> getPublicUrl env bucketName
                        ((if pfx \<noteq> [] then pfx @ ''/'' else []) @ name item) = Str u
                  \<and> u \<noteq> [] \<longrightarrow>
               showItem env bucketName pfx item =
                 [Item File (name item)
                    (''('' @ formatBytes env (itemSize item) @ '', MIME: '' @ itemMime item
                     @ '')''),
                  GetPublicUrl bucketName
                    ((if pfx \<noteq> [] then pfx @ ''/'' else []) @ name item),
                  Line (''   URL: '' @ u)]"
    using showItem_file_url [of item env bucketName pfx] by blast
  have dirCase: "\<not> truthy (id_entry item) \<longrightarrow>
               showItem env bucketName pfx item = [Item Directory (name item) ''(Directory)'']"
    using showItem_directory [of item env bucketName pfx] by blast
  have fileCase: "truthy (id_entry item) \<longrightarrow>
               showItem env bucketName pfx item =
                 Item File (name item)
                   (''('' @ formatBytes env (itemSize item) @ '', MIME: '' @ itemMime item @ '')'')
                 # GetPublicUrl bucketName ((if pfx \<noteq> [] then pfx @ ''/'' else []) @ name item)
                 # (if truthy (getPublicUrl env bucketName
                                 ((if pfx \<noteq> [] then pfx @ ''/'' else []) @ name item))
                    then [Line (''   URL: '' @ render (getPublicUrl env bucketName
                                 ((if pfx \<noteq> [] then pfx @ ''/'' else []) @ name item)))]
                    else [])"
    using showItem_file [of item env bucketName pfx] by blast
  have sz: "metadata item = None \<or> (\<exists>m. metadata item = Some m \<and> size_meta m = None)
               \<longrightarrow> itemSize item = 0 \<and> formatBytes env (itemSize item) = ''0 Bytes''"
    using itemSize_default [of item] zero by blast
  have mime: "metadata item = None \<or> (\<exists>m. metadata item = Some m \<and> \<not> truthy (mimetype m))
               \<longrightarrow> itemMime item = ''N/A''"
    using itemMime_default [of item] by blast
  show ?thesis
    by (intro conjI first dirCase fileCase urlCase sz mime)
qed

theorem C5_listing_entries_witness:
  "supabase readyWorld = Some \<lparr>clientUrl = ''https://demo.supabase.co'',
                                 clientKey = ''service-role-key''\<rparr>
   \<and> ''photos'' \<noteq> []
   \<and> listFiles demoEnv ''photos'' [] 100 0
       = Inr (Data [\<lparr>name = ''docs'', id_entry = Null, metadata = None\<rparr>,
                    \<lparr>name = ''cat.png'', id_entry = Str ''7f3a'', metadata = None\<rparr>])
   \<and> \<lparr>name = ''cat.png'', id_entry = Str ''7f3a'', metadata = None\<rparr>
       \<in> set [\<lparr>name = ''docs'', id_entry = Null, metadata = None\<rparr>,
                \<lparr>name = ''cat.png'', id_entry = Str ''7f3a'', metadata = None\<rparr>]
   \<and> showItem demoEnv ''photos'' []
         \<lparr>name = ''cat.png'', id_entry = Str ''7f3a'', metadata = None\<rparr>
       = [Item File ''cat.png'' (''('' @ ''0 Bytes'' @ '', MIME: '' @ ''N/A'' @ '')''),
          GetPublicUrl ''photos'' ''cat.png'',
          Line (''   URL: '' @ ''https://demo.supabase.co/storage/v1/object/public/''
                @ ''photos'' @ ''/'' @ ''cat.png'')]"
proof -
  let ?cat = "\<lparr>name = ''cat.png'', id_entry = Str ''7f3a'', metadata = None\<rparr>"
  let ?docs = "\<lparr>name = ''docs'', id_entry = Null, metadata = None\<rparr>"
  have h1: "supabase readyWorld = Some \<lparr>clientUrl = ''https://demo.supabase.co'',
                                 clientKey = ''service-role-key''\<rparr>"
    by (simp add: readyWorld_def freshWorld_def)
  have h2: "''photos'' \<noteq> []" by simp
  have h3: "listFiles demoEnv ''photos'' [] 100 0 = Inr (Data [?docs, ?cat])"
    by (simp add: demoEnv_def)
  have h4: "?cat \<in> set [?docs, ?cat]" by simp
  have u: "getPublicUrl demoEnv ''photos'' ''cat.png''
             = Str (''https://demo.supabase.co/storage/v1/object/public/''
                    @ ''photos'' @ ''/'' @ ''cat.png'')"
    by (simp add: demoEnv_def)
  from C5_listing_entries [OF h1 h2 h3 h4]
  have "showItem demoEnv ''photos'' [] ?cat
       = [Item File ''cat.png'' (''('' @ ''0 Bytes'' @ '', MIME: '' @ ''N/A'' @ '')''),
          GetPublicUrl ''photos'' ''cat.png'',
          Line (''   URL: '' @ ''https://demo.supabase.co/storage/v1/object/public/''
                @ ''photos'' @ ''/'' @ ''cat.png'')]"
    by (simp add: u formatBytes_def)
  with h1 h2 h3 h4 show ?thesis by blast
qed

text \<open>
  The listing of the sample environment: the entry \<^verbatim>\<open>docs\<close>, whose id is \<^verbatim>\<open>null\<close>,
  is printed as a directory and \<^verbatim>\<open>cat.png\<close> as a file with its URL.
\<close>

lemma showBucketFiles_sample_listing:
  "trace (showBucketFiles demoEnv ''photos'' [] readyWorld) =
     [Clear, Out TBanner (''LIST FILES IN BUCKET ==='' @ [newline]),
      Asked ''Enter bucket name:'',
      Asked (''Enter path prefix (optional, e.g., '' @ [CHR 0x27] @ ''folder/subfolder''
             @ [CHR 0x27] @ ''):''),
      Out TInfo (''Listing files in '' @ [CHR 0x27] @ ''photos'' @ [CHR 0x27]
                 @ '' (prefix: '' @ [CHR 0x27] @ ''/'' @ [CHR 0x27] @ '')...''),
      ListFiles ''photos'' [] 100 0,
      Out TSuccess (''Found 2 items:'' @ [newline]),
      Item Directory ''docs'' ''(Directory)'',
      Item File ''cat.png'' ''(0 Bytes, MIME: N/A)'',
      GetPublicUrl ''photos'' ''cat.png'',
      Line ''   URL: https://demo.supabase.co/storage/v1/object/public/photos/cat.png'']
   \<and> listFiles demoEnv ''photos'' [] 100 0
       = Inr (Data [\<lparr>name = ''docs'', id_entry = Null, metadata = None\<rparr>,
                    \<lparr>name = ''cat.png'', id_entry = Str ''7f3a'', metadata = None\<rparr>])"
  by code_simp

section \<open>Properties of the download test\<close>

lemma supabase_writeFileSync: "supabase (snd (writeFileSync p content w)) = supabase w"
  by (simp add: writeFileSync_def Let_def emit_def)

lemma trace_writeFileSync: "trace (snd (writeFileSync p content w)) = trace w @ [WriteFile p content]"
  by (simp add: writeFileSync_def Let_def emit_def)

lemma downloadAttempt_frame:
  "\<exists>es. trace (downloadAttempt env bucketName objectPath w) = trace w @ es
        \<and> supabase (downloadAttempt env bucketName objectPath w) = supabase w"
  by (auto simp add: downloadAttempt_def Let_def trace_emit trace_emits supabase_emit
        supabase_emits supabase_writeFileSync trace_writeFileSync split_beta
      split: sum.splits reply.splits option.splits)

text \<open>
  Claim C6. With the client present and both answers non-empty, nothing is assumed
  about the download call: it may return the object, return an API error or throw. In
  every case the trace of \<^verbatim>\<open>checkDownload\<close> continues after step 1 with the heading
  of step 2 and the call of \<^verbatim>\<open>getPublicUrl\<close>; when that gives a URL, the URL is
  printed and probed, and the result of the probe is reported by a success line or a
  warning, after which the handler returns normally. (Without a URL there is a warning
  and nothing to probe; a probe whose request cannot be created leaves the handler as
  an exception.)
\<close>

theorem C6_probe_after_any_download_outcome:
  assumes "supabase w = Some c" and "bucketName \<noteq> []" and "objectPath \<noteq> []"
    and "url = getPublicUrl env bucketName objectPath"
    and "m = (if startsWith (render url) ''https:'' then Https else Http)"
  shows "\<exists>step1.
           trace (snd (checkDownload env bucketName objectPath w))
             = trace w @ step1
               @ Out TInfo ([newline] @ ''2. Checking public URL accessibility (if any):'')
               # GetPublicUrl bucketName objectPath
               # (if \<not> truthy url
                  then [Out TWarn ''Could not retrieve public URL for this file.'']
                  else Out TInfo (''Public URL: '' @ render url)
                       # HttpGet m (render url) 5000
                       # (case httpGet env m (render url) 5000 of
                            GetThrew e \<Rightarrow> []
                          | Emitted ev evs \<Rightarrow>
                              [if accessible (onEvent ev)
                               then Out TSuccess (''Public URL accessible (Status: ''
                                      @ showInt (statusCode (onEvent ev)) @ '').'')
                               else Out TWarn (''Public URL check (Status: ''
                                      @ showInt (statusCode (onEvent ev)) @ '', Error: ''
                                      @ orElse (error (onEvent ev)) ''N/A''
                                      @ ''). RLS/CORS/private bucket?'')]))
         \<and> fst (checkDownload env bucketName objectPath w)
             = (if \<not> truthy url then Inr ()
                else case httpGet env m (render url) 5000 of
                       GetThrew e \<Rightarrow> Inl e
                     | Emitted ev evs \<Rightarrow> Inr ())"
proof -
  obtain step1 where s1: "trace (downloadAttempt env bucketName objectPath wa) = trace wa @ step1 wa"
    and c1: "supabase (downloadAttempt env bucketName objectPath wa) = supabase wa" for wa
    using downloadAttempt_frame by metis
  show ?thesis
    using assms
    by (auto simp add: checkDownload_def Let_def checkUrl_request s1 c1
          trace_emit trace_emits supabase_emit supabase_emits
        split: get_result.splits)
qed

theorem C6_probe_after_any_download_outcome_witness:
  "supabase readyWorld = Some \<lparr>clientUrl = ''https://demo.supabase.co'',
                                 clientKey = ''service-role-key''\<rparr>
   \<and> ''photos'' \<noteq> [] \<and> ''missing.txt'' \<noteq> []
   \<and> download notFoundEnv ''photos'' ''missing.txt''
       = Inr (Fail \<lparr>message = Str ''Object not found''\<rparr>)
   \<and> Str ''https://demo.supabase.co/storage/v1/object/public/photos/missing.txt''
       = getPublicUrl notFoundEnv ''photos'' ''missing.txt''
   \<and> Https = (if startsWith
                    (render (Str ''https://demo.supabase.co/storage/v1/object/public/photos/missing.txt''))
                    ''https:'' then Https else Http)
   \<and> (\<exists>step1.
         trace (snd (checkDownload notFoundEnv ''photos'' ''missing.txt'' readyWorld))
           = trace readyWorld @ step1
             @ [Out TInfo ([newline] @ ''2. Checking public URL accessibility (if any):''),
                GetPublicUrl ''photos'' ''missing.txt'',
                Out TInfo (''Public URL: ''
                  @ ''https://demo.supabase.co/storage/v1/object/public/photos/missing.txt''),
                HttpGet Https
                  ''https://demo.supabase.co/storage/v1/object/public/photos/missing.txt'' 5000,
                Out TWarn (''Public URL check (Status: '' @ showInt 404 @ '', Error: ''
                           @ ''N/A'' @ ''). RLS/CORS/private bucket?'')])
   \<and> fst (checkDownload notFoundEnv ''photos'' ''missing.txt'' readyWorld) = Inr ()"
proof -
  let ?u = "''https://demo.supabase.co/storage/v1/object/public/photos/missing.txt''"
  have h1: "supabase readyWorld = Some \<lparr>clientUrl = ''https://demo.supabase.co'',
                                 clientKey = ''service-role-key''\<rparr>"
    by (simp add: readyWorld_def freshWorld_def)
  have h2: "''photos'' \<noteq> []" and h3: "''missing.txt'' \<noteq> []" by simp_all
  have d: "download notFoundEnv ''photos'' ''missing.txt''
             = Inr (Fail \<lparr>message = Str ''Object not found''\<rparr>)"
    by (simp add: notFoundEnv_def)
  have h4: "Str ?u = getPublicUrl notFoundEnv ''photos'' ''missing.txt''"
    by (simp add: notFoundEnv_def demoEnv_def)
  have h5: "Https = (if startsWith (render (Str ?u)) ''https:'' then Https else Http)"
    by (simp add: startsWith_def)
  have g: "httpGet notFoundEnv Https (render (Str ?u)) 5000 = Emitted (Response 404) []"
    by (simp add: notFoundEnv_def)
  have t: "truthy (Str ?u)" by simp
  from C6_probe_after_any_download_outcome [OF h1 h2 h3 h4 h5]
  have "(\<exists>step1.
         trace (snd (checkDownload notFoundEnv ''photos'' ''missing.txt'' readyWorld))
           = trace readyWorld @ step1
             @ [Out TInfo ([newline] @ ''2. Checking public URL accessibility (if any):''),
                GetPublicUrl ''photos'' ''missing.txt'',
                Out TInfo (''Public URL: '' @ ?u),
                HttpGet Https ?u 5000,
                Out TWarn (''Public URL check (Status: '' @ showInt 404 @ '', Error: ''
                           @ ''N/A'' @ ''). RLS/CORS/private bucket?'')])
   \<and> fst (checkDownload notFoundEnv ''photos'' ''missing.txt'' readyWorld) = Inr ()"
    unfolding g by (simp add: t)
  with h1 h2 h3 d h4 h5 show ?thesis by blast
qed

lemma basename_no_slash: "CHR ''/'' \<notin> set (basename p)"
proof -
  have "\<forall>c \<in> set (takeWhile (\<lambda>c. c \<noteq> CHR ''/'') xs). c \<noteq> CHR ''/''" for xs :: string
    by (auto dest: set_takeWhileD)
  then show ?thesis
    unfolding basename_def by (simp only: set_rev) blast
qed

lemma dirnameOf_pathJoin: "CHR ''/'' \<notin> set n \<Longrightarrow> dirnameOf (pathJoin d n) = d"
proof -
  assume n: "CHR ''/'' \<notin> set n"
  have "dropWhile (\<lambda>c. c \<noteq> CHR ''/'') (rev n @ CHR ''/'' # rev d)
          = dropWhile (\<lambda>c. c \<noteq> CHR ''/'') (CHR ''/'' # rev d)"
    by (rule dropWhile_append2) (use n in auto)
  then show ?thesis
    by (simp add: dirnameOf_def pathJoin_def)
qed

lemma downloadAttempt_without_tempDir:
  assumes "supabase w = Some c"
    and "download env bucketName objectPath = Inr (Data b)"
    and "tempDir env \<notin> dirs w" and "files w (tempDir env) = None"
  shows "files (downloadAttempt env bucketName objectPath w) = files w
         \<and> dirs (downloadAttempt env bucketName objectPath w) = dirs w
         \<and> (\<exists>pre. trace (downloadAttempt env bucketName objectPath w)
               = trace w @ pre
                 @ [Out TError (''Critical download exception: ''
                      @ ''ENOENT: no such file or directory, open '' @ [CHR 0x27]
                      @ pathJoin (tempDir env) (''download_'' @ basename objectPath)
                      @ [CHR 0x27])])"
proof -
  have "CHR ''/'' \<notin> set (''download_'' @ basename objectPath)"
    using basename_no_slash [of objectPath] by simp
  then have d: "dirnameOf (pathJoin (tempDir env) (''download_'' @ basename objectPath))
             = tempDir env"
    by (rule dirnameOf_pathJoin)
  show ?thesis
    using assms d
    by (simp add: downloadAttempt_def Let_def writeFileSync_def emit_def)
qed

text \<open>
  Claim C9 says that the temp directory is created on demand before any handler writes
  into it, so that the inspection copy of a successful download can be written.
  \<^verbatim>\<open>prepareTestFile\<close> does create it; \<^verbatim>\<open>checkDownload\<close> has no such step. In a
  session where nothing has created the directory yet, a successful download ends in
  \<^verbatim>\<open>Critical download exception: ENOENT\<close> and no copy is written (the lemma above
  says so for every such state). Evaluated on the sample environment, right after
  start-up:
\<close>

theorem C9_inspection_copy_not_written:
  "existsSync readyWorld (tempDir demoEnv) = False
   \<and> download demoEnv ''photos'' ''a/cat.png''
       = Inr (Data \<lparr>size_blob = 5, type_blob = ''text/plain'', bytes_blob = ''hello''\<rparr>)
   \<and> trace (snd (checkDownload demoEnv ''photos'' ''a/cat.png'' readyWorld))
       = [Clear, Out TBanner (''DOWNLOAD TEST ==='' @ [newline]),
          Asked ''Enter bucket name:'', Asked ''Enter full file path in bucket:'',
          Out TInfo ([newline]
            @ ''1. Attempting download via Supabase client: photos/a/cat.png''),
          Download ''photos'' ''a/cat.png'',
          Out TSuccess ''Download SUCCEEDED in 42ms. Size: 5 Bytes, Type: text/plain'',
          WriteFile ''/app/supabase-debug-temp/download_cat.png'' ''hello'',
          Out TError (''Critical download exception: ENOENT: no such file or directory, open ''
            @ [CHR 0x27] @ ''/app/supabase-debug-temp/download_cat.png'' @ [CHR 0x27]),
          Out TInfo ([newline] @ ''2. Checking public URL accessibility (if any):''),
          GetPublicUrl ''photos'' ''a/cat.png'',
          Out TInfo ''Public URL: https://demo.supabase.co/storage/v1/object/public/photos/a/cat.png'',
          HttpGet Https
            ''https://demo.supabase.co/storage/v1/object/public/photos/a/cat.png'' 5000,
          Out TSuccess ''Public URL accessible (Status: 200).'']
   \<and> files (snd (checkDownload demoEnv ''photos'' ''a/cat.png'' readyWorld))
         ''/app/supabase-debug-temp/download_cat.png'' = None
   \<and> tempDir demoEnv \<notin> dirs (snd (checkDownload demoEnv ''photos'' ''a/cat.png'' readyWorld))
   \<and> tempDir demoEnv \<in> dirs (snd (prepareTestFile demoEnv ''text'' readyWorld))
   \<and> files (snd (prepareTestFile demoEnv ''text'' readyWorld))
         ''/app/supabase-debug-temp/debug-text.txt''
       = Some ''Supabase Storage Debug Tool: Test file generated at 2024-01-01T00:00:00.000Z''"
  by code_simp

section \<open>Properties of the upload\<close>

lemma coreUploadProcessor_frame:
  "files (snd (coreUploadProcessor env bucketName targetPath src ctype sz w)) = files w
   \<and> dirs (snd (coreUploadProcessor env bucketName targetPath src ctype sz w)) = dirs w
   \<and> supabase (snd (coreUploadProcessor env bucketName targetPath src ctype sz w)) = supabase w"
  by (auto simp add: coreUploadProcessor_def Let_def checkUrl_request
        files_emit files_emits dirs_emit dirs_emits supabase_emit supabase_emits
      split: sum.splits reply.splits option.splits get_result.splits)

lemma coreUploadProcessor_trace:
  assumes "supabase w = Some c"
  shows "\<exists>b. trace (snd (coreUploadProcessor env bucketName targetPath src ctype sz w))
           = trace w
             @ Out TInfo (''Attempting upload: '' @ bucketName @ ''/'' @ targetPath
                          @ '' ('' @ formatBytes env sz @ '') Type: '' @ ctype)
             # Upload bucketName (sourceArg src) (Text targetPath)
                 \<lparr>contentType = ctype, cacheControl = ''3600'', upsert = True\<rparr>
             # b"
  using assms
  by (auto simp add: coreUploadProcessor_def Let_def checkUrl_request
        trace_emit trace_emits supabase_emit supabase_emits
      split: sum.splits reply.splits option.splits get_result.splits)

lemma coreUploadProcessor_returns_data_path:
  assumes "supabase w = Some c"
    and "upload env bucketName (sourceArg src) (Text targetPath)
           \<lparr>contentType = ctype, cacheControl = ''3600'', upsert = True\<rparr> = Inr (Data d)"
    and "fst (coreUploadProcessor env bucketName targetPath src ctype sz w) = Some q"
  shows "q = path d"
  using assms
  by (auto simp add: coreUploadProcessor_def Let_def checkUrl_request
        supabase_emit supabase_emits
      split: if_splits get_result.splits)

text \<open>
  Claim C1 says that a successful upload to target path \<open>P\<close> returns \<open>P\<close>, the upload
  being issued with the target path as the remote object path and the file source as
  the body. The source passes them the other way round: the stream comes first and
  \<^verbatim>\<open>targetPath\<close> second, while the client library declares
  \<^verbatim>\<open>upload(path, fileBody, fileOptions)\<close>. So the library is given the stream as
  the object path and the text of the target path as the body. What the processor
  returns is \<^verbatim>\<open>data.path\<close> as the library reports it (the lemma above). On the
  sample environment, whose \<open>upload\<close> behaves as the library does, the call throws and
  the processor returns \<^verbatim>\<open>null\<close>; with the two arguments in the declared order the
  same library call reports the target path.
\<close>

theorem C1_upload_arguments_swapped:
  "fst (coreUploadProcessor demoEnv ''photos'' ''reports/a.txt''
          \<lparr>srcPath = Str ''/home/u/a.txt'', srcBuffer = None\<rparr> ''text/plain'' 12 readyWorld)
     = None
   \<and> trace (snd (coreUploadProcessor demoEnv ''photos'' ''reports/a.txt''
          \<lparr>srcPath = Str ''/home/u/a.txt'', srcBuffer = None\<rparr> ''text/plain'' 12 readyWorld))
     = [Out TInfo ''Attempting upload: photos/reports/a.txt (12 Bytes) Type: text/plain'',
        Upload ''photos'' (ReadStream ''/home/u/a.txt'') (Text ''reports/a.txt'')
          \<lparr>contentType = ''text/plain'', cacheControl = ''3600'', upsert = True\<rparr>,
        Out TError ''Critical upload exception: path.replace is not a function'',
        Out TTip (''Consult Supabase docs for: '' @ [dquote]
                  @ ''path.replace is not a function'' @ [dquote])]
   \<and> libraryUpload ''photos'' (Text ''reports/a.txt'') (ReadStream ''/home/u/a.txt'')
         \<lparr>contentType = ''text/plain'', cacheControl = ''3600'', upsert = True\<rparr>
     = Inr (Data \<lparr>path = ''reports/a.txt''\<rparr>)"
  by code_simp

lemma pathJoin_neq: "pathJoin d n \<noteq> d"
  by (simp add: pathJoin_def)

lemma prepareTestFile_ok:
  assumes "fileType = ''text'' \<or> fileType = ''image''"
    and "tempDir env \<in> dirs w \<or> files w (tempDir env) = None"
    and "p = pathJoin (tempDir env)
               (if fileType = ''text'' then TEST_TEXT_FILENAME else TEST_IMAGE_FILENAME)"
    and "p \<notin> dirs w"
  shows "\<exists>tf es w1. prepareTestFile env fileType w = (Inr (Some tf), w1)
           \<and> filePath tf = p
           \<and> fileContentType tf = (if fileType = ''text'' then ''text/plain'' else ''image/png'')
           \<and> files w1 p \<noteq> None
           \<and> dirs w1 = insert (tempDir env) (dirs w)
           \<and> supabase w1 = supabase w
           \<and> trace w1 = trace w @ es"
proof -
  have d: "dirnameOf p = tempDir env"
    unfolding assms(3)
    by (rule dirnameOf_pathJoin) (simp add: TEST_TEXT_FILENAME_def TEST_IMAGE_FILENAME_def)
  have ne: "p \<noteq> tempDir env"
    unfolding assms(3) by (rule pathJoin_neq)
  from assms(1) show ?thesis
  proof
    assume t: "fileType = ''text''"
    then have pt: "pathJoin (tempDir env) TEST_TEXT_FILENAME = p"
      using assms(3) by simp
    show ?thesis
      using assms(2) assms(4) d ne
      by (auto simp add: prepareTestFile_def t pt writeFileSync_def mkdirSync_def
            existsSync_def Let_def emit_def)
  next
    assume t: "fileType = ''image''"
    then have pt: "pathJoin (tempDir env) TEST_IMAGE_FILENAME = p"
      using assms(3) by simp
    show ?thesis
      using assms(2) assms(4) d ne
      by (auto simp add: prepareTestFile_def t pt writeFileSync_def mkdirSync_def
            existsSync_def Let_def emit_def)
  qed
qed

lemma unlinkSync_result:
  assumes "files w p \<noteq> None"
  shows "unlinkSync env p w =
           (case unlinkRefused env p of
              Some e \<Rightarrow> (Inl e, emit (Unlink p) w)
            | None \<Rightarrow> (Inr (), (emit (Unlink p) w)\<lparr>files := (files w)(p := None)\<rparr>))"
  using assms by (cases "files w p") (simp_all add: unlinkSync_def Let_def)

text \<open>
  Claim C8. For a generated text or image payload, with a bucket name given, the client
  present and the temp path free for the payload, nothing is assumed about the upload:
  it may succeed, return an API error or throw inside \<^verbatim>\<open>coreUploadProcessor\<close>. In
  every case the handler returns normally, the upload call is followed by
  \<^verbatim>\<open>fs.unlinkSync\<close> on the payload file, and the last line is either the clean-up
  message, the file being gone, or, when the operating system refuses the removal, the
  warning with the error's message.
\<close>

theorem C8_generated_file_removed:
  assumes "fileType = ''text'' \<or> fileType = ''image''"
    and "bucketName \<noteq> []"
    and "supabase w = Some c"
    and "tempDir env \<in> dirs w \<or> files w (tempDir env) = None"
    and "p = pathJoin (tempDir env)
               (if fileType = ''text'' then TEST_TEXT_FILENAME else TEST_IMAGE_FILENAME)"
    and "p \<notin> dirs w"
    and "storagePath = (if storagePathInput = []
                        then DEFAULT_UPLOAD_PATH_PREFIX @ ''/'' @ fileType @ ''/'' @ basename p
                        else storagePathInput)"
    and "opts = \<lparr>contentType = (if fileType = ''text'' then ''text/plain'' else ''image/png''),
                 cacheControl = ''3600'', upsert = True\<rparr>"
    and "res = handleGeneratedFileUpload env fileType bucketName storagePathInput w"
  shows "fst res = Inr ()
         \<and> (\<exists>a b last.
               trace (snd res)
                 = trace w @ a @ Upload bucketName (ReadStream p) (Text storagePath) opts
                   # b @ [Unlink p, last]
               \<and> (unlinkRefused env p = None \<longrightarrow>
                     last = Out TInfo (''Cleaned up local test file: '' @ p)
                     \<and> files (snd res) p = None)
               \<and> (\<forall>e. unlinkRefused env p = Some e \<longrightarrow>
                     last = Out TWarn (''Failed to cleanup local test file: ''
                                       @ render (message e))))"
proof -
  let ?hd = "[Clear,
              Out TBanner (''GENERATED '' @ toUpperCase fileType @ '' FILE UPLOAD ===''
                           @ [newline]),
              Asked ''Enter bucket name:'']"
  let ?w0 = "emits ?hd w"
  have "tempDir env \<in> dirs ?w0 \<or> files ?w0 (tempDir env) = None" "p \<notin> dirs ?w0"
    using assms(4) assms(6) by (simp_all add: dirs_emits files_emits)
  from prepareTestFile_ok [OF assms(1) this(1) assms(5) this(2)]
  obtain tf es w1 where
    prep: "prepareTestFile env fileType ?w0 = (Inr (Some tf), w1)"
    and fp: "filePath tf = p"
    and ct: "fileContentType tf
               = (if fileType = ''text'' then ''text/plain'' else ''image/png'')"
    and f1: "files w1 p \<noteq> None"
    and c1: "supabase w1 = supabase w"
    and t1: "trace w1 = trace w @ ?hd @ es"
    by (auto simp add: supabase_emits trace_emits)
  let ?ask = "Asked (''Enter storage path (default: '' @ DEFAULT_UPLOAD_PATH_PREFIX @ ''/''
                     @ fileType @ ''/'' @ basename p @ ''):'')"
  let ?w2 = "emit ?ask w1"
  let ?cu = "coreUploadProcessor env bucketName storagePath
               \<lparr>srcPath = Str p, srcBuffer = None\<rparr>
               (fileContentType tf) (fileSize tf) ?w2"
  define w3 where "w3 = snd ?cu"
  have c2: "supabase ?w2 = Some c"
    using c1 assms(3) by (simp add: supabase_emit)
  from coreUploadProcessor_trace [OF c2] obtain b where
    t3: "trace w3
           = trace ?w2
             @ Out TInfo (''Attempting upload: '' @ bucketName @ ''/'' @ storagePath
                          @ '' ('' @ formatBytes env (fileSize tf) @ '') Type: ''
                          @ fileContentType tf)
             # Upload bucketName (sourceArg \<lparr>srcPath = Str p, srcBuffer = None\<rparr>)
                 (Text storagePath)
                 \<lparr>contentType = fileContentType tf, cacheControl = ''3600'', upsert = True\<rparr>
             # b"
    unfolding w3_def by blast
  have pne: "p \<noteq> []"
    unfolding assms(5) by (simp add: pathJoin_def)
  have sa: "sourceArg \<lparr>srcPath = Str p, srcBuffer = None\<rparr> = ReadStream p"
    using pne by (simp add: sourceArg_def)
  have f3: "files w3 p \<noteq> None"
    unfolding w3_def
    using f1 coreUploadProcessor_frame [of env bucketName storagePath
            "\<lparr>srcPath = Str p, srcBuffer = None\<rparr>" "fileContentType tf" "fileSize tf" ?w2]
    by (simp add: files_emit)
  have res: "res =
      (case unlinkSync env p w3 of
         (Inr u, w4) \<Rightarrow> (Inr (), emit (Out TInfo (''Cleaned up local test file: '' @ p)) w4)
       | (Inl e, w4) \<Rightarrow> (Inr (), emit (Out TWarn (''Failed to cleanup local test file: ''
                                                  @ render (message e))) w4))"
  proof -
    have sp: "(if storagePathInput = []
               then DEFAULT_UPLOAD_PATH_PREFIX @ ''/'' @ fileType @ ''/''
                    @ basename (filePath tf)
               else storagePathInput) = storagePath"
      by (simp only: assms(7) fp)
    show ?thesis
      unfolding w3_def assms(9) handleGeneratedFileUpload_def Let_def
      by (simp only: assms(2) if_False prep prod.case sum.case option.case sp fp
            assms(7) [symmetric] case_prod_beta fst_conv snd_conv append_assoc)
  qed
  let ?a = "?hd @ es @ [?ask, Out TInfo (''Attempting upload: '' @ bucketName @ ''/''
                          @ storagePath @ '' ('' @ formatBytes env (fileSize tf)
                          @ '') Type: '' @ fileContentType tf)]"
  have tr: "trace w3
              = trace w @ ?a @ Upload bucketName (ReadStream p) (Text storagePath) opts # b"
  proof -
    have oe: "\<lparr>contentType = fileContentType tf, cacheControl = ''3600'', upsert = True\<rparr>
              = opts"
      by (simp only: ct assms(8))
    show ?thesis
      unfolding t3
      by (simp only: sa oe trace_emit t1 append_assoc append_Cons append_Nil)
  qed
  show ?thesis
  proof (cases "unlinkRefused env p")
    case None
    then have r: "res = (Inr (), emit (Out TInfo (''Cleaned up local test file: '' @ p))
                           ((emit (Unlink p) w3)\<lparr>files := (files w3)(p := None)\<rparr>))"
      by (simp add: res unlinkSync_result [OF f3])
    have gone: "files (snd res) p = None"
      by (simp add: r emit_def)
    show ?thesis
    proof (intro conjI exI)
      show "fst res = Inr ()" by (simp add: r)
      show "trace (snd res)
              = trace w @ ?a @ Upload bucketName (ReadStream p) (Text storagePath) opts
                # b @ [Unlink p, Out TInfo (''Cleaned up local test file: '' @ p)]"
        by (simp add: r emit_def tr)
      show "unlinkRefused env p = None \<longrightarrow>
              Out TInfo (''Cleaned up local test file: '' @ p)
                = Out TInfo (''Cleaned up local test file: '' @ p)
              \<and> files (snd res) p = None"
        using gone by simp
      show "\<forall>e. unlinkRefused env p = Some e \<longrightarrow>
              Out TInfo (''Cleaned up local test file: '' @ p)
                = Out TWarn (''Failed to cleanup local test file: '' @ render (message e))"
        using None by simp
    qed
  next
    case (Some e)
    then have r: "res = (Inr (), emit (Out TWarn (''Failed to cleanup local test file: ''
                                                  @ render (message e)))
                           (emit (Unlink p) w3))"
      by (simp add: res unlinkSync_result [OF f3])
    show ?thesis
    proof (intro conjI exI)
      show "fst res = Inr ()" by (simp add: r)
      show "trace (snd res)
              = trace w @ ?a @ Upload bucketName (ReadStream p) (Text storagePath) opts
                # b @ [Unlink p, Out TWarn (''Failed to cleanup local test file: ''
                                           @ render (message e))]"
        by (simp add: r emit_def tr)
      show "unlinkRefused env p = None \<longrightarrow>
              Out TWarn (''Failed to cleanup local test file: '' @ render (message e))
                = Out TInfo (''Cleaned up local test file: '' @ p)
              \<and> files (snd res) p = None"
        using Some by simp
      show "\<forall>e'. unlinkRefused env p = Some e' \<longrightarrow>
              Out TWarn (''Failed to cleanup local test file: '' @ render (message e))
                = Out TWarn (''Failed to cleanup local test file: '' @ render (message e'))"
        using Some by simp
    qed
  qed
qed

theorem C8_generated_file_removed_witness:
  "(''text'' = ''text'' \<or> ''text'' = ''image'')
   \<and> ''photos'' \<noteq> []
   \<and> supabase readyWorld = Some \<lparr>clientUrl = ''https://demo.supabase.co'',
                                   clientKey = ''service-role-key''\<rparr>
   \<and> (tempDir demoEnv \<in> dirs readyWorld \<or> files readyWorld (tempDir demoEnv) = None)
   \<and> ''/app/supabase-debug-temp/debug-text.txt''
       = pathJoin (tempDir demoEnv)
           (if ''text'' = ''text'' then TEST_TEXT_FILENAME else TEST_IMAGE_FILENAME)
   \<and> ''/app/supabase-debug-temp/debug-text.txt'' \<notin> dirs readyWorld
   \<and> unlinkRefused demoEnv ''/app/supabase-debug-temp/debug-text.txt'' = None
   \<and> fst (handleGeneratedFileUpload demoEnv ''text'' ''photos'' [] readyWorld) = Inr ()
   \<and> files (snd (handleGeneratedFileUpload demoEnv ''text'' ''photos'' [] readyWorld))
         ''/app/supabase-debug-temp/debug-text.txt'' = None"
proof -
  let ?p = "''/app/supabase-debug-temp/debug-text.txt''"
  have h1: "''text'' = ''text'' \<or> ''text'' = ''image''" by simp
  have h2: "''photos'' \<noteq> []" by simp
  have h3: "supabase readyWorld = Some \<lparr>clientUrl = ''https://demo.supabase.co'',
                                   clientKey = ''service-role-key''\<rparr>"
    by (simp add: readyWorld_def freshWorld_def)
  have h4: "tempDir demoEnv \<in> dirs readyWorld \<or> files readyWorld (tempDir demoEnv) = None"
    by (simp add: readyWorld_def freshWorld_def)
  have h5: "?p = pathJoin (tempDir demoEnv)
                   (if ''text'' = ''text'' then TEST_TEXT_FILENAME else TEST_IMAGE_FILENAME)"
    by (simp add: demoEnv_def pathJoin_def TEST_TEXT_FILENAME_def)
  have h6: "?p \<notin> dirs readyWorld"
    by (simp add: readyWorld_def freshWorld_def)
  have u: "unlinkRefused demoEnv ?p = None"
    by (simp add: demoEnv_def)
  from C8_generated_file_removed [OF h1 h2 h3 h4 h5 h6 refl refl refl, of "[]"] u
  have "fst (handleGeneratedFileUpload demoEnv ''text'' ''photos'' [] readyWorld) = Inr ()
        \<and> files (snd (handleGeneratedFileUpload demoEnv ''text'' ''photos'' [] readyWorld)) ?p
            = None"
    by blast
  with h1 h2 h3 h4 h5 h6 u show ?thesis by blast
qed

end
